theory Spec2Isabelle
  imports Main
begin

chapter \<open>Login with one-time codes and sessions\<close>

text \<open>
  The services and controllers of the authentication backend as functions on an explicit
  state: the table of one-time codes, the table of sessions, the console and the messages
  handed to delivery providers. The clock, the random draws and the imported libraries are
  arguments. Errors thrown are values (\<open>Inl\<close> of the message); the store itself is taken to
  answer every statement.
\<close>

section \<open>JavaScript values and strings\<close>

text \<open>
  Values that reach the controllers from a JSON request body or from a result row of the
  store. Numbers are restricted to integers (the only ones whose \<open>String(n)\<close> is the plain
  decimal rendering); strings are lists of code units below 256.
\<close>

datatype jsval = JUndefined | JNull | JBool bool | JNum int | JStr string

text \<open>JavaScript truthiness (\<open>!!v\<close>).\<close>

fun truthy :: "jsval \<Rightarrow> bool" where
  "truthy JUndefined = False"
| "truthy JNull = False"
| "truthy (JBool b) = b"
| "truthy (JNum n) = (n \<noteq> 0)"
| "truthy (JStr s) = (s \<noteq> [])"

text \<open>The decimal digits of a number, as \<open>Number.prototype.toString\<close> writes an integer.\<close>

fun string_of_nat :: "nat \<Rightarrow> string" where
  "string_of_nat n =
     (if n < 10 then [''0123456789'' ! n]
      else string_of_nat (n div 10) @ [''0123456789'' ! (n mod 10)])"

declare string_of_nat.simps [simp del]

definition string_of_int :: "int \<Rightarrow> string" where
  "string_of_int i = (if i < 0 then CHR ''-'' # string_of_nat (nat (- i)) else string_of_nat (nat i))"

text \<open>\<open>String(v)\<close>.\<close>

fun String_js :: "jsval \<Rightarrow> string" where
  "String_js JUndefined = ''undefined''"
| "String_js JNull = ''null''"
| "String_js (JBool b) = (if b then ''true'' else ''false'')"
| "String_js (JNum n) = string_of_int n"
| "String_js (JStr s) = s"

text \<open>
  \<open>String.prototype.trim\<close>: strips white space and line terminators at both ends. Among
  the code units below 256 these are TAB, LF, VT, FF, CR, SPACE and NBSP.
\<close>

definition is_ws :: "char \<Rightarrow> bool" where
  "is_ws c = (let n = (of_char c :: nat) in (9 \<le> n \<and> n \<le> 13) \<or> n = 32 \<or> n = 160)"

definition trim :: "string \<Rightarrow> string" where
  "trim s = rev (dropWhile is_ws (rev (dropWhile is_ws s)))"

text \<open>A nullable string is falsy when it is \<open>null\<close>/\<open>undefined\<close> or empty.\<close>

fun present :: "string option \<Rightarrow> bool" where
  "present None = False"
| "present (Some s) = (s \<noteq> [])"

text \<open>\<open>a || b\<close> on nullable strings.\<close>

definition or_else :: "string option \<Rightarrow> string option \<Rightarrow> string option" where
  "or_else a b = (if present a then a else b)"

section \<open>Configuration (config/env.js)\<close>

record sms_config =
  sms_provider :: string
  twilio_accountSid :: "string option"
  twilio_authToken :: "string option"
  twilio_fromNumber :: "string option"
  msg91_authKey :: "string option"
  msg91_senderId :: "string option"
  textlocal_apiKey :: "string option"
  textlocal_sender :: "string option"

record email_config =
  email_provider :: string
  sendgrid_apiKey :: "string option"
  sendgrid_fromEmail :: "string option"

record config =
  otp_ttlMinutes :: int
  session_ttlHours :: int
  timezone :: string
  sms :: sms_config
  email_cfg :: email_config
  node_env :: string

section \<open>The store and the outside world\<close>

text \<open>
  Instants are milliseconds since the epoch. The tables are lists of rows in insertion
  order. Beside the two tables the state holds what the process prints (\<open>console\<close>) and
  what it hands to a delivery provider (\<open>outbox\<close>). The statements of the services are
  functions on this state; a statement that only reads returns the state it was given.
\<close>

type_synonym instant = int

record user =
  user_id :: string
  email :: "string option"
  phone :: "string option"
  password_hash :: jsval
  role :: string
  is_active :: jsval

record otp_row =
  otp_id :: nat
  otp_user_id :: string
  otp_phone :: "string option"
  otp_code :: string
  otp_type :: string
  otp_expires_at :: instant
  is_used :: bool
  attempts_count :: int
  otp_email :: "string option"
  otp_ip_address :: string
  otp_created_at :: instant

record session_row =
  session_id :: string
  s_user_id :: string
  jwt_token :: string
  device_type :: string
  s_ip_address :: "string option"
  user_agent :: "string option"
  s_expires_at :: instant
  last_activity_at :: instant
  s_created_at :: instant
  s_is_active :: bool

datatype channel = SMS | EMAIL

record delivery =
  d_channel :: channel
  d_provider :: string
  d_to :: string
  d_text :: string

record world =
  users_otps :: "otp_row list"
  user_sessions :: "session_row list"
  console :: "string list"
  outbox :: "delivery list"

text \<open>
  \<open>INSERT INTO users_otps (user_id, phone, otp_code, otp_type, expires_at, is_used,
  attempts_count, email, ip_address) VALUES ($1, $2, $3, $4, $5, false, 0, $6, $7)
  RETURNING *\<close>. The columns the statement does not name are filled by the store: the
  key \<open>otp_id\<close>, and \<open>created_at\<close> from the store's clock \<open>dbnow\<close>.
\<close>

definition insert_otp ::
  "instant \<Rightarrow> string \<Rightarrow> string option \<Rightarrow> string \<Rightarrow> string \<Rightarrow> instant \<Rightarrow> string option \<Rightarrow> string
     \<Rightarrow> world \<Rightarrow> otp_row list \<times> world" where
  "insert_otp dbnow uid mobile code ty expires mail ip db =
     (let row = \<lparr> otp_id = Suc (length (users_otps db)), otp_user_id = uid, otp_phone = mobile,
                    otp_code = code, otp_type = ty, otp_expires_at = expires, is_used = False,
                    attempts_count = 0, otp_email = mail, otp_ip_address = ip,
                    otp_created_at = dbnow \<rparr>
      in ([row], db\<lparr> users_otps := users_otps db @ [row] \<rparr>))"

text \<open>
  \<open>order by created_at desc limit 1\<close>: a row whose \<open>created_at\<close> no other row exceeds.
  Among rows created at the same instant the store may return any; the model returns the
  one inserted last.
\<close>

fun latest :: "otp_row list \<Rightarrow> otp_row option" where
  "latest [] = None"
| "latest (r # rs) =
     (case latest rs of
        None \<Rightarrow> Some r
      | Some m \<Rightarrow> if otp_created_at r > otp_created_at m then Some r else Some m)"

text \<open>
  \<open>select otp_id, otp_code, expires_at, is_used from users_otps where user_id=$1 and
  phone=$2 and otp_type='LOGIN' order by created_at desc limit 1\<close>. A row whose phone is
  NULL matches no parameter.
\<close>

definition otp_matches :: "string \<Rightarrow> string \<Rightarrow> otp_row \<Rightarrow> bool" where
  "otp_matches uid mobile r =
     (otp_user_id r = uid \<and> otp_phone r = Some mobile \<and> otp_type r = ''LOGIN'')"

record otp_view =
  v_otp_id :: nat
  v_otp_code :: string
  v_expires_at :: instant
  v_is_used :: bool

definition otp_columns :: "otp_row \<Rightarrow> otp_view" where
  "otp_columns r = \<lparr> v_otp_id = otp_id r, v_otp_code = otp_code r,
                     v_expires_at = otp_expires_at r, v_is_used = is_used r \<rparr>"

definition select_latest_login_otp :: "string \<Rightarrow> string \<Rightarrow> world \<Rightarrow> otp_view list \<times> world" where
  "select_latest_login_otp uid mobile db =
     (case latest (filter (otp_matches uid mobile) (users_otps db)) of
        None \<Rightarrow> ([], db)
      | Some r \<Rightarrow> ([otp_columns r], db))"

section \<open>Collaborators\<close>

text \<open>
  What the services import and this development does not look inside: the HTTP client, the
  e-mail syntax check, the formatting of an instant in a zone by moment-timezone, the store's
  reading of a \<open>'YYYY-MM-DD HH:mm:ss'\<close> literal into a timestamp column, bcrypt, the token
  signer and the two identity lookups of the user service. A collaborator that can throw
  returns \<open>Inl\<close> with the message of the error. The theorems are stated for arbitrary
  collaborators.
\<close>

record collab =
  axios :: "string \<Rightarrow> string \<Rightarrow> string \<Rightarrow> string + unit"
  isEmail :: "string \<Rightarrow> bool"
  moment_format :: "string \<Rightarrow> string \<Rightarrow> instant \<Rightarrow> string"
  timestamp_in :: "string \<Rightarrow> instant"
  bcrypt_compare :: "jsval \<Rightarrow> string \<Rightarrow> string + bool"
  signJwt :: "string \<Rightarrow> string option \<Rightarrow> string \<Rightarrow> string + string"
  findUserByEmailAndRole :: "string option \<Rightarrow> string option \<Rightarrow> string + user option"
  findUserByMobileAndRole :: "string option \<Rightarrow> string option \<Rightarrow> string + user option"

text \<open>
  What differs from one call to the next: the process clock, the store's clock, and the two
  random draws (\<open>random_otp\<close> stands for \<open>Math.floor(Math.random() * 9000)\<close>).
\<close>

record ambient =
  clock :: instant
  db_clock :: instant
  random_otp :: nat
  random_uuid :: string

section \<open>Notifications (services/notificationService.js)\<close>

definition print :: "string list \<Rightarrow> world \<Rightarrow> world" where
  "print ls w = w\<lparr> console := console w @ ls \<rparr>"

text \<open>A message reaches a provider (the console provider included).\<close>

definition hand_over :: "channel \<Rightarrow> string \<Rightarrow> string \<Rightarrow> string \<Rightarrow> world \<Rightarrow> world" where
  "hand_over ch prov to txt w =
     w\<lparr> outbox := outbox w @ [\<lparr> d_channel = ch, d_provider = prov, d_to = to, d_text = txt \<rparr>] \<rparr>"

definition is_digit :: "char \<Rightarrow> bool" where
  "is_digit c = (let n = (of_char c :: nat) in 48 \<le> n \<and> n \<le> 57)"

definition lower_char :: "char \<Rightarrow> char" where
  "lower_char c =
     (let n = (of_char c :: nat)
      in if (65 \<le> n \<and> n \<le> 90) \<or> (192 \<le> n \<and> n \<le> 222 \<and> n \<noteq> 215) then char_of (n + 32) else c)"

definition toLowerCase :: "string \<Rightarrow> string" where
  "toLowerCase s = map lower_char s"

text \<open>The string inside a nullable string that \<open>present\<close> has accepted.\<close>

fun str :: "string option \<Rightarrow> string" where
  "str None = []"
| "str (Some s) = s"

definition getOtpMessage :: "config \<Rightarrow> string \<Rightarrow> string \<Rightarrow> string" where
  "getOtpMessage cfg otpCode otpType =
     (let tail = ''. Valid for '' @ string_of_int (otp_ttlMinutes cfg) @ '' minutes.''
      in if otpType = ''LOGIN''
           then ''Your login OTP is '' @ otpCode @ tail @ '' Do not share this OTP with anyone.''
         else if otpType = ''PASSWORD_RESET''
           then ''Your password reset OTP is '' @ otpCode @ tail @ '' Do not share this OTP with anyone.''
         else if otpType = ''VERIFICATION''
           then ''Your verification OTP is '' @ otpCode @ tail @ '' Do not share this OTP with anyone.''
         else ''Your OTP is '' @ otpCode @ tail)"

definition getOtpSubject :: "string \<Rightarrow> string" where
  "getOtpSubject otpType =
     (if otpType = ''LOGIN'' then ''Your Login OTP''
      else if otpType = ''PASSWORD_RESET'' then ''Password Reset OTP''
      else if otpType = ''VERIFICATION'' then ''Verification OTP''
      else ''Your OTP'')"

text \<open>The HTML body, without its indentation and line breaks.\<close>

definition getOtpEmailBody :: "config \<Rightarrow> string \<Rightarrow> string \<Rightarrow> string" where
  "getOtpEmailBody cfg otpCode otpType =
     ''<div><h2>Your OTP Code</h2><p>Your OTP code is: <strong>'' @ otpCode @ ''</strong></p>''
     @ ''<p>This OTP is valid for '' @ string_of_int (otp_ttlMinutes cfg) @ '' minutes.</p>''
     @ ''<p><strong>Important:</strong> Do not share this OTP with anyone.</p>''
     @ ''<p>If you did not request this OTP, please ignore this message.</p></div>''"

definition sendViaTwilio ::
  "config \<Rightarrow> collab \<Rightarrow> string \<Rightarrow> string \<Rightarrow> world \<Rightarrow> (string + string) \<times> world" where
  "sendViaTwilio cfg col ph message w =
     (let accountSid = twilio_accountSid (sms cfg);
          authToken = twilio_authToken (sms cfg);
          fromNumber = twilio_fromNumber (sms cfg)
      in if \<not> present accountSid \<or> \<not> present authToken \<or> \<not> present fromNumber
         then (Inl ''Twilio credentials not configured'', w)
         else (case axios col (''https://api.twilio.com/2010-04-01/Accounts/'' @ str accountSid
                                 @ ''/Messages.json'') ph message of
                 Inl e \<Rightarrow> Inl e
               | Inr _ \<Rightarrow> Inr ''twilio'',
               hand_over SMS ''twilio'' ph message w))"

definition sendViaMsg91 ::
  "config \<Rightarrow> collab \<Rightarrow> string \<Rightarrow> string \<Rightarrow> world \<Rightarrow> (string + string) \<times> world" where
  "sendViaMsg91 cfg col ph message w =
     (let authKey = msg91_authKey (sms cfg);
          senderId = msg91_senderId (sms cfg)
      in if \<not> present authKey \<or> \<not> present senderId
         then (Inl ''MSG91 credentials not configured'', w)
         else (case axios col ''https://control.msg91.com/api/sendhttp.php'' ph message of
                 Inl e \<Rightarrow> Inl e
               | Inr _ \<Rightarrow> Inr ''msg91'',
               hand_over SMS ''msg91'' ph message w))"

definition sendViaTextLocal ::
  "config \<Rightarrow> collab \<Rightarrow> string \<Rightarrow> string \<Rightarrow> world \<Rightarrow> (string + string) \<times> world" where
  "sendViaTextLocal cfg col ph message w =
     (let apiKey = textlocal_apiKey (sms cfg);
          sender = textlocal_sender (sms cfg)
      in if \<not> present apiKey \<or> \<not> present sender
         then (Inl ''TextLocal credentials not configured'', w)
         else (case axios col ''https://api.textlocal.in/send/'' ph message of
                 Inl e \<Rightarrow> Inl e
               | Inr _ \<Rightarrow> Inr ''textlocal'',
               hand_over SMS ''textlocal'' ph message w))"

text \<open>A \<open>catch\<close> that prints the error and throws it again.\<close>

definition rethrow :: "string \<Rightarrow> (string + string) \<times> world \<Rightarrow> (string + string) \<times> world" where
  "rethrow label rw =
     (case rw of
        (Inl e, w) \<Rightarrow> (Inl e, print [label @ '' '' @ e] w)
      | (Inr p, w) \<Rightarrow> (Inr p, w))"

text \<open>
  \<open>sendSMS(phone, message)\<close>: the result is \<open>Inl\<close> the message of the error thrown, or \<open>Inr\<close>
  the provider that took the message.
\<close>

definition sendSMS ::
  "config \<Rightarrow> collab \<Rightarrow> string \<Rightarrow> string \<Rightarrow> world \<Rightarrow> (string + string) \<times> world" where
  "sendSMS cfg col ph message w =
     (let smsProvider = (if sms_provider (sms cfg) = [] then ''console'' else sms_provider (sms cfg));
          phoneNumber = filter (\<lambda>c. is_digit c) ph
      in rethrow ''SMS sending error:''
           (if phoneNumber = [] then (Inl ''Invalid phone number'', w)
            else if toLowerCase smsProvider = ''twilio'' then sendViaTwilio cfg col phoneNumber message w
            else if toLowerCase smsProvider = ''msg91'' then sendViaMsg91 cfg col phoneNumber message w
            else if toLowerCase smsProvider = ''textlocal''
              then sendViaTextLocal cfg col phoneNumber message w
            else (Inr ''console'',
                  print [''SMS (Console Mode):'', ''   To: '' @ phoneNumber, ''   Message: '' @ message]
                    (hand_over SMS ''console'' phoneNumber message w))))"

definition sendViaSMTP :: "string \<Rightarrow> string \<Rightarrow> string \<Rightarrow> world \<Rightarrow> (string + string) \<times> world" where
  "sendViaSMTP mail subject message w =
     (Inr ''smtp'',
      print [''SMTP Email (Not Implemented):'', ''   To: '' @ mail, ''   Subject: '' @ subject,
             ''   Message: '' @ message, ''   Note: Please configure nodemailer for SMTP support'']
        (hand_over EMAIL ''smtp'' mail message w))"

definition sendViaSendGrid ::
  "config \<Rightarrow> collab \<Rightarrow> string \<Rightarrow> string \<Rightarrow> string \<Rightarrow> world \<Rightarrow> (string + string) \<times> world" where
  "sendViaSendGrid cfg col mail subject message w =
     (let apiKey = sendgrid_apiKey (email_cfg cfg);
          fromEmail = sendgrid_fromEmail (email_cfg cfg)
      in if \<not> present apiKey \<or> \<not> present fromEmail
         then (Inl ''SendGrid credentials not configured'', w)
         else (case axios col ''https://api.sendgrid.com/v3/mail/send'' mail message of
                 Inl e \<Rightarrow> Inl e
               | Inr _ \<Rightarrow> Inr ''sendgrid'',
               hand_over EMAIL ''sendgrid'' mail message w))"

definition sendViaSES :: "string \<Rightarrow> string \<Rightarrow> string \<Rightarrow> world \<Rightarrow> (string + string) \<times> world" where
  "sendViaSES mail subject message w =
     (Inr ''ses'',
      print [''AWS SES Email (Not Implemented):'', ''   To: '' @ mail, ''   Subject: '' @ subject,
             ''   Note: Please configure AWS SDK for SES support'']
        (hand_over EMAIL ''ses'' mail message w))"

definition sendEmail ::
  "config \<Rightarrow> collab \<Rightarrow> string \<Rightarrow> string \<Rightarrow> string \<Rightarrow> world \<Rightarrow> (string + string) \<times> world" where
  "sendEmail cfg col mail subject message w =
     (let emailProvider =
            (if email_provider (email_cfg cfg) = [] then ''console'' else email_provider (email_cfg cfg))
      in rethrow ''Email sending error:''
           (if mail = [] \<or> \<not> isEmail col mail then (Inl ''Invalid email address'', w)
            else if toLowerCase emailProvider = ''smtp'' then sendViaSMTP mail subject message w
            else if toLowerCase emailProvider = ''sendgrid''
              then sendViaSendGrid cfg col mail subject message w
            else if toLowerCase emailProvider = ''ses'' then sendViaSES mail subject message w
            else (Inr ''console'',
                  print [''Email (Console Mode):'', ''   To: '' @ mail, ''   Subject: '' @ subject,
                         ''   Message: '' @ message]
                    (hand_over EMAIL ''console'' mail message w))))"

definition sendOtpViaSMS ::
  "config \<Rightarrow> collab \<Rightarrow> string \<Rightarrow> string \<Rightarrow> string \<Rightarrow> world \<Rightarrow> (string + string) \<times> world" where
  "sendOtpViaSMS cfg col ph otpCode otpType w = sendSMS cfg col ph (getOtpMessage cfg otpCode otpType) w"

definition sendOtpViaEmail ::
  "config \<Rightarrow> collab \<Rightarrow> string \<Rightarrow> string \<Rightarrow> string \<Rightarrow> world \<Rightarrow> (string + string) \<times> world" where
  "sendOtpViaEmail cfg col mail otpCode otpType w =
     sendEmail cfg col mail (getOtpSubject otpType) (getOtpEmailBody cfg otpCode otpType) w"

section \<open>One-time codes (services/otpService.js)\<close>

datatype otp_reason = otp_not_found | otp_used | otp_expired | otp_mismatch

datatype otp_result = OtpInvalid otp_reason | OtpValid otp_view

definition generateOtp :: "nat \<Rightarrow> string" where
  "generateOtp r = string_of_nat (1000 + r)"

record otp_issue =
  otpCode :: string
  expiresIST :: string
  expiresLocal :: string
  expiresUTC :: instant
  issued_row :: "otp_row option"

text \<open>
  The \<open>.catch\<close> on each delivery: the rejection is printed and not thrown again.
\<close>

definition swallow :: "string \<Rightarrow> (string + string) \<times> world \<Rightarrow> world" where
  "swallow label rw =
     (case rw of
        (Inl e, w) \<Rightarrow> print [label @ '' '' @ e] w
      | (Inr _, w) \<Rightarrow> w)"

text \<open>
  \<open>createOtpForUser(user, explicitMobile, otpType)\<close>. The expiry is the instant \<open>ttl\<close>
  minutes after \<open>moment()\<close>; \<open>expiresLocal.tz('UTC')\<close> moves the moment itself to UTC, so the
  two formatted fields are rendered in UTC. The two deliveries are started in the order SMS,
  e-mail and \<open>Promise.allSettled\<close> waits for both.
\<close>

definition createOtpForUser ::
  "config \<Rightarrow> collab \<Rightarrow> ambient \<Rightarrow> user \<Rightarrow> string option \<Rightarrow> string \<Rightarrow> world \<Rightarrow> otp_issue \<times> world" where
  "createOtpForUser cfg col amb usr explicitMobile otpType w =
     (let code = generateOtp (random_otp amb);
          ttl = (if otp_ttlMinutes cfg = 0 then 30 else otp_ttlMinutes cfg);
          expires = clock amb + ttl * 60000;
          mobile = or_else explicitMobile (phone usr);
          mail = email usr;
          (rows, w1) = insert_otp (db_clock amb) (user_id usr) mobile code otpType expires mail
                         ''127.0.0.1'' w;
          w2 = (if present mobile
                then swallow (''Failed to send OTP SMS to '' @ str mobile @ '':'')
                       (sendOtpViaSMS cfg col (str mobile) code otpType w1)
                else w1);
          w3 = (if present mail
                then swallow (''Failed to send OTP Email to '' @ str mail @ '':'')
                       (sendOtpViaEmail cfg col (str mail) code otpType w2)
                else w2)
      in (\<lparr> otpCode = code,
            expiresIST = moment_format col ''UTC'' ''DD/MM/YYYY HH:mm:ss'' expires,
            expiresLocal = moment_format col ''UTC'' ''DD/MM/YYYY HH:mm:ss'' expires,
            expiresUTC = expires,
            issued_row = (case rows of [] \<Rightarrow> None | r # _ \<Rightarrow> Some r) \<rparr>, w3))"

text \<open>
  \<open>verifyUserOtp(userId, mobile, otp)\<close> at the instant \<open>now\<close> of \<open>moment()\<close>. Both moments are
  put in the configured zone before \<open>isAfter\<close>, which compares the instants.
\<close>

definition verifyUserOtp ::
  "instant \<Rightarrow> string \<Rightarrow> string \<Rightarrow> jsval \<Rightarrow> world \<Rightarrow> otp_result \<times> world" where
  "verifyUserOtp now userId mobile otp db =
     (case select_latest_login_otp userId mobile db of
        ([], db1) \<Rightarrow> (OtpInvalid otp_not_found, db1)
      | (row # _, db1) \<Rightarrow>
          if v_is_used row then (OtpInvalid otp_used, db1)
          else if now > v_expires_at row then (OtpInvalid otp_expired, db1)
          else if trim (String_js (JStr (v_otp_code row))) \<noteq> trim (String_js otp)
               then (OtpInvalid otp_mismatch, db1)
          else (OtpValid row, db1))"

section \<open>Sessions (services/sessionService.js)\<close>

text \<open>
  \<open>INSERT INTO user_sessions (session_id, user_id, jwt_token, device_type, ip_address,
  user_agent, expires_at, last_activity_at, created_at, is_active) VALUES ($1, $2, $3,
  'system', $4, $5, $6, $7, $6, true) RETURNING *\<close>: the sixth parameter fills both
  \<open>expires_at\<close> and \<open>created_at\<close>.
\<close>

definition insert_session ::
  "collab \<Rightarrow> string \<Rightarrow> string \<Rightarrow> string \<Rightarrow> string option \<Rightarrow> string option \<Rightarrow> string \<Rightarrow> instant
     \<Rightarrow> world \<Rightarrow> session_row list \<times> world" where
  "insert_session col p1 p2 p3 p4 p5 p6 p7 w =
     (let row = \<lparr> session_id = p1, s_user_id = p2, jwt_token = p3, device_type = ''system'',
                    s_ip_address = p4, user_agent = p5, s_expires_at = timestamp_in col p6,
                    last_activity_at = p7, s_created_at = timestamp_in col p6,
                    s_is_active = True \<rparr>
      in ([row], w\<lparr> user_sessions := user_sessions w @ [row] \<rparr>))"

record session_view =
  v_session_id :: string
  v_user_id :: string
  v_jwt_token :: string
  v_s_expires_at :: instant
  v_is_active :: bool

definition session_columns :: "session_row \<Rightarrow> session_view" where
  "session_columns s = \<lparr> v_session_id = session_id s, v_user_id = s_user_id s,
                         v_jwt_token = jwt_token s, v_s_expires_at = s_expires_at s,
                         v_is_active = s_is_active s \<rparr>"

text \<open>
  \<open>SELECT session_id, user_id, jwt_token, expires_at, is_active FROM public.user_sessions
  WHERE session_id = $1\<close>.
\<close>

definition select_session :: "string \<Rightarrow> world \<Rightarrow> session_view list \<times> world" where
  "select_session sid w =
     (map session_columns (filter (\<lambda>s. session_id s = sid) (user_sessions w)), w)"

text \<open>
  \<open>UPDATE public.user_sessions SET is_active = false, last_activity_at = NOW() WHERE
  session_id = $1\<close>, and the same \<open>WHERE user_id = $1\<close>.
\<close>

definition deactivate :: "instant \<Rightarrow> session_row \<Rightarrow> session_row" where
  "deactivate dbnow s = s\<lparr> s_is_active := False, last_activity_at := dbnow \<rparr>"

definition update_session_inactive :: "instant \<Rightarrow> string \<Rightarrow> world \<Rightarrow> world" where
  "update_session_inactive dbnow sid w =
     w\<lparr> user_sessions :=
          map (\<lambda>s. if session_id s = sid then deactivate dbnow s else s) (user_sessions w) \<rparr>"

definition update_user_sessions_inactive :: "instant \<Rightarrow> string \<Rightarrow> world \<Rightarrow> world" where
  "update_user_sessions_inactive dbnow uid w =
     w\<lparr> user_sessions :=
          map (\<lambda>s. if s_user_id s = uid then deactivate dbnow s else s) (user_sessions w) \<rparr>"

record session_issue =
  sessionId :: string
  expiresAt :: string
  dbRow :: "session_row option"

text \<open>
  \<open>createSessionForUser(userId, token, ip, userAgent)\<close>. Hours are added to the instant;
  the result is formatted in the configured zone and that text is the sixth parameter.
\<close>

definition createSessionForUser ::
  "config \<Rightarrow> collab \<Rightarrow> ambient \<Rightarrow> string \<Rightarrow> string \<Rightarrow> string option \<Rightarrow> string option \<Rightarrow> world
     \<Rightarrow> session_issue \<times> world" where
  "createSessionForUser cfg col amb userId token ip userAgent w =
     (let sid = random_uuid amb;
          now = clock amb;
          tz = (if timezone cfg = [] then ''Asia/Kolkata'' else timezone cfg);
          expires = moment_format col tz ''YYYY-MM-DD HH:mm:ss''
                      (now + session_ttlHours cfg * 3600000);
          lastActivity = clock amb;
          (rows, w1) = insert_session col sid userId token
                         (if present ip then ip else None)
                         (if present userAgent then userAgent else None)
                         expires lastActivity w
      in (\<lparr> sessionId = sid, expiresAt = expires,
            dbRow = (case rows of [] \<Rightarrow> None | r # _ \<Rightarrow> Some r) \<rparr>, w1))"

datatype session_reason = not_found | inactive | expired

datatype session_result = SessionInvalid session_reason | SessionValid session_view

text \<open>\<open>validateSession(sessionId)\<close> at the instant \<open>now\<close> of \<open>new Date()\<close>.\<close>

definition validateSession :: "instant \<Rightarrow> string \<Rightarrow> world \<Rightarrow> session_result \<times> world" where
  "validateSession now sid w =
     (case select_session sid w of
        ([], w1) \<Rightarrow> (SessionInvalid not_found, w1)
      | (session # _, w1) \<Rightarrow>
          if \<not> v_is_active session then (SessionInvalid inactive, w1)
          else if v_s_expires_at session \<le> now then (SessionInvalid expired, w1)
          else (SessionValid session, w1))"

definition destroySession :: "ambient \<Rightarrow> string \<Rightarrow> world \<Rightarrow> world" where
  "destroySession amb sid w = update_session_inactive (db_clock amb) sid w"

definition destroyAllSessionsForUser :: "ambient \<Rightarrow> string \<Rightarrow> world \<Rightarrow> world" where
  "destroyAllSessionsForUser amb userId w = update_user_sessions_inactive (db_clock amb) userId w"

section \<open>Requests and responses (utils/request.js, utils/response.js)\<close>

record body =
  b_login_type :: "string option"
  b_email :: "string option"
  b_password :: jsval
  b_role :: "string option"
  b_mobile :: "string option"
  b_otp :: jsval

record request =
  req_body :: body
  x_forwarded_for :: "string option"
  remoteAddress :: "string option"
  user_agent_header :: "string option"

record response =
  status :: nat
  message :: string
  error :: "string option"
  payload :: "(string \<times> jsval) list"

definition successResponse :: "nat \<Rightarrow> string \<Rightarrow> (string \<times> jsval) list \<Rightarrow> response" where
  "successResponse statusCode msg data =
     \<lparr> status = statusCode, message = msg, error = None, payload = data \<rparr>"

text \<open>The detail of an error is part of the response only when \<open>NODE_ENV\<close> is development.\<close>

definition errorResponse :: "config \<Rightarrow> nat \<Rightarrow> string \<Rightarrow> string option \<Rightarrow> response" where
  "errorResponse cfg statusCode msg err =
     \<lparr> status = statusCode, message = msg,
       error = (if present err \<and> node_env cfg = ''development'' then err else None),
       payload = [] \<rparr>"

definition normalizeIp :: "request \<Rightarrow> string option" where
  "normalizeIp req =
     (let forwarded = x_forwarded_for req;
          rawIp = (if present forwarded
                   then Some (trim (takeWhile (\<lambda>c. c \<noteq> CHR '','') (str forwarded)))
                   else remoteAddress req)
      in if \<not> present rawIp then None
         else if str rawIp = ''::1'' then Some ''127.0.0.1''
         else if take 7 (str rawIp) = ''::ffff:'' then Some (drop 7 (str rawIp))
         else rawIp)"

definition getUserAgent :: "request \<Rightarrow> string option" where
  "getUserAgent req = (if present (user_agent_header req) then user_agent_header req else None)"

definition getClientInfo :: "request \<Rightarrow> string option \<times> string option" where
  "getClientInfo req = (normalizeIp req, getUserAgent req)"

section \<open>The login steps (controllers/authController.js)\<close>

text \<open>\<open>user && String(user.is_active).trim() === 'true'\<close>; no identity is \<open>None\<close>.\<close>

fun isUserActive :: "user option \<Rightarrow> bool" where
  "isUserActive None = False"
| "isUserActive (Some u) = (trim (String_js (is_active u)) = ''true'')"

text \<open>
  \<open>verifyPassword(plainPassword, hashedPassword)\<close>. Both arguments are whatever the request
  body and the identity row hold. A stored string with a bcrypt prefix is compared by
  bcrypt (an error of bcrypt is printed and counts as no match). Any other stored value is
  compared with \<open>===\<close>, which on these values is equality of the values: a \<open>null\<close> password
  equals a \<open>null\<close> stored value, an \<open>undefined\<close> one does not. A stored value that is truthy
  and not a string has no \<open>startsWith\<close>; the call throws, outside the \<open>try\<close>.
\<close>

definition verifyPassword ::
  "collab \<Rightarrow> jsval \<Rightarrow> jsval \<Rightarrow> world \<Rightarrow> (string + bool) \<times> world" where
  "verifyPassword col plainPassword hashedPassword w =
     (case hashedPassword of
        JStr h \<Rightarrow>
          if h \<noteq> [] \<and> (take 4 h = ''$2a$'' \<or> take 4 h = ''$2b$'' \<or> take 4 h = ''$2y$'')
          then (case bcrypt_compare col plainPassword h of
                  Inl e \<Rightarrow> (Inr False, print [''Bcrypt comparison error: '' @ e] w)
                | Inr b \<Rightarrow> (Inr b, w))
          else (Inr (plainPassword = hashedPassword), w)
      | _ \<Rightarrow>
          if truthy hashedPassword
          then (Inl ''hashedPassword.startsWith is not a function'', w)
          else (Inr (plainPassword = hashedPassword), w))"

text \<open>The \<open>catch\<close> of a controller: the error is printed and answered with status 500.\<close>

definition caught :: "config \<Rightarrow> string \<Rightarrow> string \<Rightarrow> world \<Rightarrow> response \<times> world" where
  "caught cfg label e w =
     (errorResponse cfg 500 ''Internal server error'' (Some e), print [label @ '' '' @ e] w)"

fun js_of :: "string option \<Rightarrow> jsval" where
  "js_of None = JUndefined"
| "js_of (Some s) = JStr s"

definition validateCredentials ::
  "config \<Rightarrow> collab \<Rightarrow> ambient \<Rightarrow> request \<Rightarrow> world \<Rightarrow> response \<times> world" where
  "validateCredentials cfg col amb req w =
     (let b = req_body req
      in case findUserByEmailAndRole col (b_email b) (b_role b) of
           Inl e \<Rightarrow> caught cfg ''Credential validation error:'' e w
         | Inr usr \<Rightarrow>
             if \<not> isUserActive usr then (errorResponse cfg 401 ''Invalid user credentials'' None, w)
             else (case usr of
                     None \<Rightarrow> caught cfg ''Credential validation error:''
                               ''Cannot read properties of null'' w
                   | Some u \<Rightarrow>
                       (case verifyPassword col (b_password b) (password_hash u) w of
                          (Inl e, w1) \<Rightarrow> caught cfg ''Credential validation error:'' e w1
                        | (Inr isValidPassword, w1) \<Rightarrow>
                            if \<not> isValidPassword
                            then (errorResponse cfg 401 ''Invalid user credentials'' None, w1)
                            else (case createOtpForUser cfg col amb u None ''LOGIN'' w1 of
                                    (iss, w2) \<Rightarrow>
                                      (successResponse 200 ''Valid details. OTP sent''
                                         [(''otp'', JStr (otpCode iss)),
                                          (''expires_at'', JStr (expiresIST iss)),
                                          (''user_id'', JStr (user_id u)),
                                          (''login_type'', js_of (b_login_type b))], w2)))))"

definition sendOtp ::
  "config \<Rightarrow> collab \<Rightarrow> ambient \<Rightarrow> request \<Rightarrow> world \<Rightarrow> response \<times> world" where
  "sendOtp cfg col amb req w =
     (let b = req_body req
      in case findUserByMobileAndRole col (b_mobile b) (b_role b) of
           Inl e \<Rightarrow> caught cfg ''Send OTP error:'' e w
         | Inr usr \<Rightarrow>
             if \<not> isUserActive usr then (errorResponse cfg 401 ''Invalid user credentials'' None, w)
             else (case usr of
                     None \<Rightarrow> caught cfg ''Send OTP error:'' ''Cannot read properties of null'' w
                   | Some u \<Rightarrow>
                       (case createOtpForUser cfg col amb u (b_mobile b) ''LOGIN'' w of
                          (iss, w1) \<Rightarrow>
                            (successResponse 200 ''OTP sent''
                               [(''otp'', JStr (otpCode iss)),
                                (''expires_at'', JStr (expiresIST iss)),
                                (''user_id'', JStr (user_id u)),
                                (''login_type'', js_of (b_login_type b))], w1))))"

fun reason_text :: "otp_reason \<Rightarrow> string" where
  "reason_text otp_not_found = ''otp_not_found''"
| "reason_text otp_used = ''otp_used''"
| "reason_text otp_expired = ''otp_expired''"
| "reason_text otp_mismatch = ''otp_mismatch''"

definition finalLogin ::
  "config \<Rightarrow> collab \<Rightarrow> ambient \<Rightarrow> request \<Rightarrow> world \<Rightarrow> response \<times> world" where
  "finalLogin cfg col amb req w =
     (let b = req_body req
      in case (if present (b_email b) then findUserByEmailAndRole col (b_email b) (b_role b)
               else if present (b_mobile b) then findUserByMobileAndRole col (b_mobile b) (b_role b)
               else Inr None) of
           Inl e \<Rightarrow> caught cfg ''Final login error:'' e w
         | Inr usr \<Rightarrow>
             if \<not> isUserActive usr then (errorResponse cfg 401 ''Invalid user credentials'' None, w)
             else (case usr of
                     None \<Rightarrow> caught cfg ''Final login error:'' ''Cannot read properties of null'' w
                   | Some u \<Rightarrow>
                       (let mobileToUse = or_else (b_mobile b) (phone u)
                        in if \<not> present mobileToUse
                           then (errorResponse cfg 400
                                   ''Mobile number is required for OTP verification'' None, w)
                           else (case verifyUserOtp (clock amb) (user_id u) (str mobileToUse)
                                        (b_otp b) w of
                                   (OtpInvalid reason, w1) \<Rightarrow>
                                     (errorResponse cfg 401 (''Invalid OTP: '' @ reason_text reason)
                                        None, w1)
                                 | (OtpValid _, w1) \<Rightarrow>
                                     (case signJwt col (user_id u) (email u) (role u) of
                                        Inl e \<Rightarrow> caught cfg ''Final login error:'' e w1
                                      | Inr token \<Rightarrow>
                                          (case createSessionForUser cfg col amb (user_id u) token
                                                  (fst (getClientInfo req)) (snd (getClientInfo req))
                                                  w1 of
                                             (si, w2) \<Rightarrow>
                                               (case dbRow si of
                                                  None \<Rightarrow> caught cfg ''Final login error:''
                                                            ''Cannot read properties of undefined'' w2
                                                | Some r \<Rightarrow>
                                                    (successResponse 200 ''Login successful''
                                                       [(''session_id'', JStr (sessionId si)),
                                                        (''user_id'', JStr (user_id u)),
                                                        (''token'', JStr token),
                                                        (''expiry'', JStr (expiresAt si)),
                                                        (''role'', JStr (role u)),
                                                        (''email'', js_of (email u)),
                                                        (''session_status'', JBool (s_is_active r))],
                                                     w2))))))))"

section \<open>The specification's wording of the two validity checks\<close>


definition verify_spec :: "instant \<Rightarrow> otp_row option \<Rightarrow> jsval \<Rightarrow> otp_result" where
  "verify_spec now sel submitted =
     (case sel of
        None \<Rightarrow> OtpInvalid otp_not_found
      | Some r \<Rightarrow>
          if is_used r then OtpInvalid otp_used
          else if otp_expires_at r < now then OtpInvalid otp_expired
          else if trim (String_js submitted) \<noteq> trim (otp_code r) then OtpInvalid otp_mismatch
          else OtpValid (otp_columns r))"

text \<open>
  The validation of a session as the specification words it: not found without a record,
  inactive when the flag is false, expired when \<open>expires_at \<le> now\<close>.
\<close>

definition session_spec :: "instant \<Rightarrow> session_row option \<Rightarrow> session_result" where
  "session_spec now rec =
     (case rec of
        None \<Rightarrow> SessionInvalid not_found
      | Some s \<Rightarrow>
          if \<not> s_is_active s then SessionInvalid inactive
          else if s_expires_at s \<le> now then SessionInvalid expired
          else SessionValid (session_columns s))"

section \<open>Steps that only print and deliver\<close>

text \<open>
  A step \<open>emits ch\<close> when its result does not depend on the state and all it does to the
  state is to print lines and to hand messages of the channel \<open>ch\<close> to providers.
\<close>

definition emits :: "channel \<Rightarrow> (world \<Rightarrow> (string + string) \<times> world) \<Rightarrow> bool" where
  "emits ch f =
     (\<exists>r cs ds. (\<forall>d \<in> set ds. d_channel d = ch)
        \<and> (\<forall>w. f w = (r, w\<lparr> console := console w @ cs, outbox := outbox w @ ds \<rparr>)))"

section \<open>Sample data\<close>

definition demo_config :: config where
  "demo_config =
     \<lparr> otp_ttlMinutes = 10, session_ttlHours = 8, timezone = ''Asia/Kolkata'',
       sms = \<lparr> sms_provider = ''console'', twilio_accountSid = None, twilio_authToken = None,
               twilio_fromNumber = None, msg91_authKey = None, msg91_senderId = None,
               textlocal_apiKey = None, textlocal_sender = None \<rparr>,
       email_cfg = \<lparr> email_provider = ''console'', sendgrid_apiKey = None,
                     sendgrid_fromEmail = None \<rparr>,
       node_env = ''production'' \<rparr>"

definition demo_user :: user where
  "demo_user = \<lparr> user_id = ''u1'', email = Some ''a@x.com'', phone = Some ''9876543210'',
                 password_hash = JStr ''secret'', role = ''USER'', is_active = JBool True \<rparr>"

text \<open>
  Collaborators that know the one identity \<open>demo_user\<close>, deliver every message, write an
  instant as its number of milliseconds and read every timestamp literal as 08:00 after
  the epoch.
\<close>

definition demo_collab :: collab where
  "demo_collab =
     \<lparr> axios = (\<lambda>url to txt. Inr ()), isEmail = (\<lambda>a. True),
       moment_format = (\<lambda>tz fmt t. string_of_int t), timestamp_in = (\<lambda>s. 28800000),
       bcrypt_compare = (\<lambda>p h. Inr False), signJwt = (\<lambda>uid mail rl. Inr (''jwt.'' @ uid)),
       findUserByEmailAndRole =
         (\<lambda>e r. Inr (if e = Some ''a@x.com'' \<and> r = Some ''USER'' then Some demo_user else None)),
       findUserByMobileAndRole =
         (\<lambda>m r. Inr (if m = Some ''9876543210'' \<and> r = Some ''USER'' then Some demo_user else None)) \<rparr>"

definition empty_world :: world where
  "empty_world = \<lparr> users_otps = [], user_sessions = [], console = [], outbox = [] \<rparr>"

text \<open>A call at the instant \<open>t\<close> that draws the code 4821.\<close>

definition demo_ambient :: "instant \<Rightarrow> ambient" where
  "demo_ambient t = \<lparr> clock = t, db_clock = t, random_otp = 3821, random_uuid = ''sess-1'' \<rparr>"

text \<open>The state after a code was issued to \<open>demo_user\<close> at the instant 0.\<close>

definition issued_world :: world where
  "issued_world =
     snd (createOtpForUser demo_config demo_collab (demo_ambient 0) demo_user None ''LOGIN'' empty_world)"



definition demo_session :: "string \<Rightarrow> string \<Rightarrow> instant \<Rightarrow> bool \<Rightarrow> session_row" where
  "demo_session sid uid expires active =
     \<lparr> session_id = sid, s_user_id = uid, jwt_token = ''jwt.'' @ uid, device_type = ''system'',
       s_ip_address = None, user_agent = None, s_expires_at = expires, last_activity_at = 0,
       s_created_at = expires, s_is_active = active \<rparr>"

definition two_sessions :: world where
  "two_sessions = \<lparr> users_otps = [],
                    user_sessions = [demo_session ''s1'' ''u1'' 28800000 True,
                                     demo_session ''s2'' ''u1'' 28800000 True],
                    console = [], outbox = [] \<rparr>"

text \<open>
  A deployment with Twilio and SendGrid configured, and collaborators whose every HTTP
  request fails.
\<close>

definition failing_config :: config where
  "failing_config =
     demo_config
       \<lparr> sms := \<lparr> sms_provider = ''twilio'', twilio_accountSid = Some ''AC1'',
                  twilio_authToken = Some ''tok'', twilio_fromNumber = Some ''+15550000'',
                  msg91_authKey = None, msg91_senderId = None,
                  textlocal_apiKey = None, textlocal_sender = None \<rparr>,
         email_cfg := \<lparr> email_provider = ''sendgrid'', sendgrid_apiKey = Some ''SG1'',
                        sendgrid_fromEmail = Some ''no-reply@x.com'' \<rparr> \<rparr>"

definition failing_collab :: collab where
  "failing_collab = demo_collab \<lparr> axios := (\<lambda>url to txt. Inl ''ECONNREFUSED'') \<rparr>"

text \<open>Requests to the three login steps.\<close>

definition demo_request :: "body \<Rightarrow> request" where
  "demo_request b = \<lparr> req_body = b, x_forwarded_for = None, remoteAddress = Some ''::1'',
                      user_agent_header = Some ''curl'' \<rparr>"

definition cred_body :: "string \<Rightarrow> string \<Rightarrow> body" where
  "cred_body mail pw = \<lparr> b_login_type = Some ''email_password'', b_email = Some mail,
                         b_password = JStr pw, b_role = Some ''USER'', b_mobile = None,
                         b_otp = JUndefined \<rparr>"

definition mobile_body :: body where
  "mobile_body = \<lparr> b_login_type = Some ''mobile'', b_email = None, b_password = JUndefined,
                   b_role = Some ''USER'', b_mobile = Some ''9876543210'', b_otp = JUndefined \<rparr>"

definition final_body :: "jsval \<Rightarrow> body" where
  "final_body code = \<lparr> b_login_type = None, b_email = Some ''a@x.com'', b_password = JUndefined,
                       b_role = Some ''USER'', b_mobile = None, b_otp = code \<rparr>"

text \<open>Collaborators whose lookups find \<open>demo_user\<close> with another value in the active flag.\<close>

definition flagged_collab :: "jsval \<Rightarrow> collab" where
  "flagged_collab flag =
     demo_collab
       \<lparr> findUserByEmailAndRole := (\<lambda>e r. Inr (Some (demo_user \<lparr> is_active := flag \<rparr>))),
         findUserByMobileAndRole := (\<lambda>m r. Inr (Some (demo_user \<lparr> is_active := flag \<rparr>))) \<rparr>"

text \<open>Collaborators whose lookups find \<open>demo_user\<close> with another stored credential.\<close>

definition stored_collab :: "jsval \<Rightarrow> collab" where
  "stored_collab h =
     demo_collab
       \<lparr> findUserByEmailAndRole := (\<lambda>e r. Inr (Some (demo_user \<lparr> password_hash := h \<rparr>))),
         findUserByMobileAndRole := (\<lambda>m r. Inr (Some (demo_user \<lparr> password_hash := h \<rparr>))) \<rparr>"

section \<open>The most recent code\<close>

lemma latest_eq_None [simp]: "latest rs = None \<longleftrightarrow> rs = []"
  by (induction rs) (auto split: option.splits)





lemma verifyUserOtp_unfold:
  "verifyUserOtp now uid mobile otp w =
     (verify_spec now (latest (filter (otp_matches uid mobile) (users_otps w))) otp, w)"
  by (simp add: verifyUserOtp_def select_latest_login_otp_def verify_spec_def otp_columns_def
           split: option.splits)

section \<open>Verification of a code\<close>



text \<open>
  Claim C5. \<open>verifyUserOtp\<close> writes nothing: whatever its outcome, and also when the code is
  valid, the state after the call is the state before it, so no field of the selected
  record (the used flag included) has changed.
\<close>

theorem verifyUserOtp_no_write: "snd (verifyUserOtp now uid mobile otp w) = w"
  by (simp add: verifyUserOtp_def select_latest_login_otp_def split: option.splits)

section \<open>What the deliveries leave alone\<close>

lemma print_frame [simp]:
  "users_otps (print ls w) = users_otps w" "user_sessions (print ls w) = user_sessions w"
  "outbox (print ls w) = outbox w" "console (print ls w) = console w @ ls"
  by (simp_all add: print_def)

lemma hand_over_frame [simp]:
  "users_otps (hand_over ch p t m w) = users_otps w"
  "user_sessions (hand_over ch p t m w) = user_sessions w"
  "console (hand_over ch p t m w) = console w"
  "outbox (hand_over ch p t m w) = outbox w @ [\<lparr> d_channel = ch, d_provider = p, d_to = t, d_text = m \<rparr>]"
  by (simp_all add: hand_over_def)

lemma emitsI:
  assumes "\<And>w. f w = (r, w\<lparr> console := console w @ cs, outbox := outbox w @ ds \<rparr>)"
    and "\<forall>d \<in> set ds. d_channel d = ch"
  shows "emits ch f"
  unfolding emits_def using assms by blast

lemma emits_fail: "emits ch (\<lambda>w. (Inl e, w))"
  by (rule emitsI [where cs = "[]" and ds = "[]"]) simp_all

lemma emits_rethrow:
  assumes "emits ch f"
  shows "emits ch (\<lambda>w. rethrow l (f w))"
proof -
  from assms obtain r cs ds where ds: "\<forall>d \<in> set ds. d_channel d = ch"
    and f: "\<And>w. f w = (r, w\<lparr> console := console w @ cs, outbox := outbox w @ ds \<rparr>)"
    unfolding emits_def by blast
  show ?thesis
  proof (cases r)
    case (Inl e)
    show ?thesis
      by (rule emitsI [where r = r and cs = "cs @ [l @ '' '' @ e]" and ds = ds])
         (simp_all add: f Inl rethrow_def print_def ds)
  next
    case (Inr p)
    show ?thesis
      by (rule emitsI [where r = r and cs = cs and ds = ds])
         (simp_all add: f Inr rethrow_def ds)
  qed
qed

lemma emits_hand_over:
  "emits ch (\<lambda>w. (r, print ls (hand_over ch p t m w)))"
  by (rule emitsI [where cs = ls and ds = "[\<lparr> d_channel = ch, d_provider = p, d_to = t, d_text = m \<rparr>]"])
     (simp_all add: print_def hand_over_def)

lemma emits_hand_over0:
  "emits ch (\<lambda>w. (r, hand_over ch p t m w))"
  by (rule emitsI [where cs = "[]" and ds = "[\<lparr> d_channel = ch, d_provider = p, d_to = t, d_text = m \<rparr>]"])
     (simp_all add: hand_over_def)

lemma emits_sendViaTwilio: "emits SMS (sendViaTwilio cfg col ph m)"
  unfolding sendViaTwilio_def Let_def
  by (cases "\<not> present (twilio_accountSid (sms cfg)) \<or> \<not> present (twilio_authToken (sms cfg))
              \<or> \<not> present (twilio_fromNumber (sms cfg))")
     (simp_all add: emits_fail emits_hand_over0)

lemma emits_sendViaMsg91: "emits SMS (sendViaMsg91 cfg col ph m)"
  unfolding sendViaMsg91_def Let_def
  by (cases "\<not> present (msg91_authKey (sms cfg)) \<or> \<not> present (msg91_senderId (sms cfg))")
     (simp_all add: emits_fail emits_hand_over0)

lemma emits_sendViaTextLocal: "emits SMS (sendViaTextLocal cfg col ph m)"
  unfolding sendViaTextLocal_def Let_def
  by (cases "\<not> present (textlocal_apiKey (sms cfg)) \<or> \<not> present (textlocal_sender (sms cfg))")
     (simp_all add: emits_fail emits_hand_over0)

lemma emits_sendViaSendGrid: "emits EMAIL (sendViaSendGrid cfg col a s m)"
  unfolding sendViaSendGrid_def Let_def
  by (cases "\<not> present (sendgrid_apiKey (email_cfg cfg)) \<or> \<not> present (sendgrid_fromEmail (email_cfg cfg))")
     (simp_all add: emits_fail emits_hand_over0)

lemma emits_sendViaSMTP: "emits EMAIL (sendViaSMTP a s m)"
  unfolding sendViaSMTP_def by (rule emits_hand_over)

lemma emits_sendViaSES: "emits EMAIL (sendViaSES a s m)"
  unfolding sendViaSES_def by (rule emits_hand_over)

lemma emits_if: "emits ch f \<Longrightarrow> emits ch g \<Longrightarrow> emits ch (\<lambda>w. if c then f w else g w)"
  by (cases c) simp_all

lemma emits_sendSMS: "emits SMS (sendSMS cfg col ph m)"
  unfolding sendSMS_def Let_def
  by (intro emits_rethrow emits_if emits_fail emits_sendViaTwilio emits_sendViaMsg91
        emits_sendViaTextLocal emits_hand_over)

lemma emits_sendEmail: "emits EMAIL (sendEmail cfg col a s m)"
  unfolding sendEmail_def Let_def
  by (intro emits_rethrow emits_if emits_fail emits_sendViaSMTP emits_sendViaSendGrid
        emits_sendViaSES emits_hand_over)

lemma emits_tables:
  assumes "emits ch f"
  shows "users_otps (snd (f w)) = users_otps w" and "user_sessions (snd (f w)) = user_sessions w"
  using assms unfolding emits_def by auto

lemma emits_other_channel:
  assumes "emits ch f" and "ch \<noteq> ch'"
  shows "filter (\<lambda>d. d_channel d = ch') (outbox (snd (f w))) = filter (\<lambda>d. d_channel d = ch') (outbox w)"
proof -
  from assms(1) obtain r cs ds where ds: "\<forall>d \<in> set ds. d_channel d = ch"
    and f: "\<And>w. f w = (r, w\<lparr> console := console w @ cs, outbox := outbox w @ ds \<rparr>)"
    unfolding emits_def by blast
  from ds assms(2) have "filter (\<lambda>d. d_channel d = ch') ds = []"
    by (auto simp: filter_empty_conv)
  then show ?thesis by (simp add: f)
qed

lemma emits_same_channel:
  assumes "emits ch f"
    and "filter (\<lambda>d. d_channel d = ch) (outbox w) = filter (\<lambda>d. d_channel d = ch) (outbox w')"
  shows "filter (\<lambda>d. d_channel d = ch) (outbox (snd (f w)))
           = filter (\<lambda>d. d_channel d = ch) (outbox (snd (f w')))"
proof -
  from assms(1) obtain r cs ds where
    f: "\<And>w. f w = (r, w\<lparr> console := console w @ cs, outbox := outbox w @ ds \<rparr>)"
    unfolding emits_def by blast
  show ?thesis by (simp add: f assms(2))
qed

lemma emits_sendOtpViaSMS: "emits SMS (sendOtpViaSMS cfg col ph c ty)"
  unfolding sendOtpViaSMS_def by (rule emits_sendSMS)

lemma emits_sendOtpViaEmail: "emits EMAIL (sendOtpViaEmail cfg col a c ty)"
  unfolding sendOtpViaEmail_def by (rule emits_sendEmail)

lemma swallow_frame [simp]:
  "users_otps (swallow l rw) = users_otps (snd rw)"
  "user_sessions (swallow l rw) = user_sessions (snd rw)"
  "outbox (swallow l rw) = outbox (snd rw)"
  by (simp_all add: swallow_def split: prod.splits sum.splits)

lemma insert_otp_frame [simp]:
  "user_sessions (snd (insert_otp t u m c ty e a ip w)) = user_sessions w"
  "outbox (snd (insert_otp t u m c ty e a ip w)) = outbox w"
  "console (snd (insert_otp t u m c ty e a ip w)) = console w"
  by (simp_all add: insert_otp_def Let_def)

section \<open>Issuing a code\<close>

text \<open>The tables after the two deliveries of \<open>createOtpForUser\<close>, started on \<open>w1\<close>.\<close>

lemma deliveries_tables:
  "users_otps
     (if pe then swallow le (sendOtpViaEmail cfg col a c ty
        (if pm then swallow lm (sendOtpViaSMS cfg col ph c ty w1) else w1))
      else (if pm then swallow lm (sendOtpViaSMS cfg col ph c ty w1) else w1)) = users_otps w1"
  "user_sessions
     (if pe then swallow le (sendOtpViaEmail cfg col a c ty
        (if pm then swallow lm (sendOtpViaSMS cfg col ph c ty w1) else w1))
      else (if pm then swallow lm (sendOtpViaSMS cfg col ph c ty w1) else w1)) = user_sessions w1"
  by (simp_all add: emits_tables [OF emits_sendOtpViaSMS] emits_tables [OF emits_sendOtpViaEmail])

lemma createOtpForUser_snd:
  "snd (createOtpForUser cfg col amb usr em ty w) =
     (let code = generateOtp (random_otp amb);
          mobile = or_else em (phone usr);
          w1 = snd (insert_otp (db_clock amb) (user_id usr) mobile code ty
                      (clock amb + (if otp_ttlMinutes cfg = 0 then 30 else otp_ttlMinutes cfg) * 60000)
                      (email usr) ''127.0.0.1'' w);
          w2 = (if present mobile
                then swallow (''Failed to send OTP SMS to '' @ str mobile @ '':'')
                       (sendOtpViaSMS cfg col (str mobile) code ty w1)
                else w1)
      in if present (email usr)
         then swallow (''Failed to send OTP Email to '' @ str (email usr) @ '':'')
                (sendOtpViaEmail cfg col (str (email usr)) code ty w2)
         else w2)"
  by (simp add: createOtpForUser_def Let_def split: prod.splits)

lemma createOtpForUser_fst:
  "fst (createOtpForUser cfg col amb usr em ty w) =
     \<lparr> otpCode = generateOtp (random_otp amb),
       expiresIST = moment_format col ''UTC'' ''DD/MM/YYYY HH:mm:ss''
         (clock amb + (if otp_ttlMinutes cfg = 0 then 30 else otp_ttlMinutes cfg) * 60000),
       expiresLocal = moment_format col ''UTC'' ''DD/MM/YYYY HH:mm:ss''
         (clock amb + (if otp_ttlMinutes cfg = 0 then 30 else otp_ttlMinutes cfg) * 60000),
       expiresUTC = clock amb + (if otp_ttlMinutes cfg = 0 then 30 else otp_ttlMinutes cfg) * 60000,
       issued_row = Some
         \<lparr> otp_id = Suc (length (users_otps w)), otp_user_id = user_id usr,
           otp_phone = or_else em (phone usr), otp_code = generateOtp (random_otp amb),
           otp_type = ty,
           otp_expires_at = clock amb + (if otp_ttlMinutes cfg = 0 then 30 else otp_ttlMinutes cfg) * 60000,
           is_used = False, attempts_count = 0, otp_email = email usr,
           otp_ip_address = ''127.0.0.1'', otp_created_at = db_clock amb \<rparr> \<rparr>"
  by (simp add: createOtpForUser_def insert_otp_def Let_def split: prod.splits)

lemma createOtpForUser_tables:
  "users_otps (snd (createOtpForUser cfg col amb usr em ty w)) =
     users_otps w @
       [\<lparr> otp_id = Suc (length (users_otps w)), otp_user_id = user_id usr,
          otp_phone = or_else em (phone usr), otp_code = generateOtp (random_otp amb),
          otp_type = ty,
          otp_expires_at = clock amb + (if otp_ttlMinutes cfg = 0 then 30 else otp_ttlMinutes cfg) * 60000,
          is_used = False, attempts_count = 0, otp_email = email usr,
          otp_ip_address = ''127.0.0.1'', otp_created_at = db_clock amb \<rparr>]"
  "user_sessions (snd (createOtpForUser cfg col amb usr em ty w)) = user_sessions w"
  unfolding createOtpForUser_snd Let_def deliveries_tables
  by (simp_all add: insert_otp_def Let_def)






lemma issued_world_otps:
  "users_otps issued_world =
     [\<lparr> otp_id = 1, otp_user_id = ''u1'', otp_phone = Some ''9876543210'',
        otp_code = ''4821'', otp_type = ''LOGIN'', otp_expires_at = 600000, is_used = False,
        attempts_count = 0, otp_email = Some ''a@x.com'', otp_ip_address = ''127.0.0.1'',
        otp_created_at = 0 \<rparr>]"
  by (simp add: issued_world_def createOtpForUser_tables demo_config_def demo_ambient_def
        demo_user_def empty_world_def generateOtp_def string_of_nat.simps or_else_def)



section \<open>Validating and revoking a session\<close>

lemma find_filter: "find P xs = (case filter P xs of [] \<Rightarrow> None | x # _ \<Rightarrow> Some x)"
  by (induction xs) auto

lemma validateSession_unfold:
  "validateSession now sid w =
     (session_spec now (find (\<lambda>s. session_id s = sid) (user_sessions w)), w)"
  by (cases "filter (\<lambda>s. session_id s = sid) (user_sessions w)")
     (simp_all add: validateSession_def select_session_def session_spec_def find_filter
        session_columns_def)

lemma find_deactivated:
  "find (\<lambda>s. session_id s = sid)
     (map (\<lambda>s. if session_id s = sid then deactivate t s else s) xs)
   = map_option (deactivate t) (find (\<lambda>s. session_id s = sid) xs)"
  by (induction xs) (auto simp: deactivate_def)

lemma find_Some_iff_ex: "(\<exists>x. find P xs = Some x) \<longleftrightarrow> (\<exists>x \<in> set xs. P x)"
  by (induction xs) auto

text \<open>
  Claim C4. \<open>validateSession\<close> answers as the specification says of the stored record with
  the given id: not found without a record, inactive when its flag is false, expired when
  \<open>expires_at \<le> now\<close>, valid otherwise; so it is valid exactly when the record exists, is
  active and \<open>now\<close> is strictly before \<open>expires_at\<close>. For a stored session, validation
  after \<open>destroySession\<close> fails with the reason inactive.
\<close>

theorem validateSession_characterisation:
  "fst (validateSession now sid w)
     = session_spec now (find (\<lambda>s. session_id s = sid) (user_sessions w))
   \<and> ((\<exists>v. fst (validateSession now sid w) = SessionValid v)
        \<longleftrightarrow> (\<exists>s. find (\<lambda>s. session_id s = sid) (user_sessions w) = Some s
                  \<and> s_is_active s \<and> now < s_expires_at s))
   \<and> ((\<exists>s \<in> set (user_sessions w). session_id s = sid)
        \<longrightarrow> fst (validateSession now sid (destroySession amb sid w)) = SessionInvalid inactive)"
proof (intro conjI impI)
  show "fst (validateSession now sid w)
          = session_spec now (find (\<lambda>s. session_id s = sid) (user_sessions w))"
    by (simp add: validateSession_unfold)
  show "(\<exists>v. fst (validateSession now sid w) = SessionValid v)
          \<longleftrightarrow> (\<exists>s. find (\<lambda>s. session_id s = sid) (user_sessions w) = Some s
                    \<and> s_is_active s \<and> now < s_expires_at s)"
    by (auto simp: validateSession_unfold session_spec_def split: option.splits if_splits)
next
  assume "\<exists>s \<in> set (user_sessions w). session_id s = sid"
  then obtain s where s: "find (\<lambda>s. session_id s = sid) (user_sessions w) = Some s"
    using find_Some_iff_ex [of "\<lambda>s. session_id s = sid" "user_sessions w"] by blast
  show "fst (validateSession now sid (destroySession amb sid w)) = SessionInvalid inactive"
    by (simp add: validateSession_unfold destroySession_def update_session_inactive_def
          find_deactivated s session_spec_def deactivate_def)
qed

theorem validateSession_characterisation_witness:
  "(\<exists>s \<in> set (user_sessions two_sessions). session_id s = ''s1'')
   \<and> fst (validateSession 1000 ''s1'' two_sessions)
       = SessionValid (session_columns (demo_session ''s1'' ''u1'' 28800000 True))
   \<and> fst (validateSession 28800000 ''s1'' two_sessions) = SessionInvalid expired
   \<and> fst (validateSession 1000 ''s3'' two_sessions) = SessionInvalid not_found
   \<and> fst (validateSession 1000 ''s1'' (destroySession (demo_ambient 500) ''s1'' two_sessions))
       = SessionInvalid inactive"
proof -
  have f1: "find (\<lambda>s. session_id s = ''s1'') (user_sessions two_sessions)
              = Some (demo_session ''s1'' ''u1'' 28800000 True)"
    by (simp add: two_sessions_def demo_session_def)
  have f3: "find (\<lambda>s. session_id s = ''s3'') (user_sessions two_sessions) = None"
    by (simp add: two_sessions_def demo_session_def)
  have ex: "\<exists>s \<in> set (user_sessions two_sessions). session_id s = ''s1''"
    by (simp add: two_sessions_def demo_session_def)
  have a: "session_spec 1000 (Some (demo_session ''s1'' ''u1'' 28800000 True))
             = SessionValid (session_columns (demo_session ''s1'' ''u1'' 28800000 True))"
    and b: "session_spec 28800000 (Some (demo_session ''s1'' ''u1'' 28800000 True))
             = SessionInvalid expired"
    and c: "session_spec 1000 None = SessionInvalid not_found"
    by (simp_all add: session_spec_def demo_session_def)
  from validateSession_characterisation [of 1000 "''s1''" two_sessions "demo_ambient 500"]
       validateSession_characterisation [of 28800000 "''s1''" two_sessions "demo_ambient 500"]
       validateSession_characterisation [of 1000 "''s3''" two_sessions "demo_ambient 500"]
       f1 f3 ex a b c
  show ?thesis by simp
qed

lemma deactivate_keeps [simp]:
  "session_id (deactivate t s) = session_id s" "s_user_id (deactivate t s) = s_user_id s"
  "\<not> s_is_active (deactivate t s)" "deactivate t2 (deactivate t1 s) = deactivate t2 s"
  by (simp_all add: deactivate_def)

lemma deactivate_twice:
  assumes "\<And>s t. P (deactivate t s) = P s"
  shows "(\<lambda>s. if P s then deactivate t2 s else s) \<circ> (\<lambda>s. if P s then deactivate t1 s else s)
           = (\<lambda>s. if P s then deactivate t2 s else s)"
proof (rule ext)
  fix s
  show "((\<lambda>s. if P s then deactivate t2 s else s) \<circ> (\<lambda>s. if P s then deactivate t1 s else s)) s
          = (if P s then deactivate t2 s else s)"
    by (cases "P s") (simp_all add: assms)
qed

lemma deactivated_flags:
  assumes "s \<in> set (map (\<lambda>s. if P s then deactivate t s else s) xs)" and "P s"
    and "\<And>s t. P (deactivate t s) = P s"
  shows "\<not> s_is_active s"
proof -
  from assms(1) obtain x where x: "x \<in> set xs" and s: "s = (if P x then deactivate t x else x)"
    by auto
  show ?thesis
  proof (cases "P x")
    case True
    with s show ?thesis by simp
  next
    case False
    with s assms(2) show ?thesis by simp
  qed
qed

lemma deactivate_inactive_flag:
  "\<forall>s \<in> set xs. P s \<longrightarrow> \<not> s_is_active s \<Longrightarrow>
     map s_is_active (map (\<lambda>s. if P s then deactivate t s else s) xs) = map s_is_active xs"
  by (induction xs) auto

lemma deactivate_none:
  "\<forall>s \<in> set xs. \<not> P s \<Longrightarrow> map (\<lambda>s. if P s then deactivate t s else s) xs = xs"
  by (induction xs) auto

lemma destroySession_twice:
  "destroySession a2 sid (destroySession a1 sid w) = destroySession a2 sid w"
  by (simp add: destroySession_def update_session_inactive_def deactivate_twice)

lemma destroyAll_twice:
  "destroyAllSessionsForUser a2 uid (destroyAllSessionsForUser a1 uid w)
     = destroyAllSessionsForUser a2 uid w"
  by (simp add: destroyAllSessionsForUser_def update_user_sessions_inactive_def deactivate_twice)

lemma destroySession_flags:
  "s \<in> set (user_sessions (destroySession a sid w)) \<Longrightarrow> session_id s = sid \<Longrightarrow> \<not> s_is_active s"
  using deactivated_flags [of s "\<lambda>s. session_id s = sid" "db_clock a" "user_sessions w"]
  by (simp add: destroySession_def update_session_inactive_def)

lemma destroyAll_flags:
  "s \<in> set (user_sessions (destroyAllSessionsForUser a uid w)) \<Longrightarrow> s_user_id s = uid
     \<Longrightarrow> \<not> s_is_active s"
  using deactivated_flags [of s "\<lambda>s. s_user_id s = uid" "db_clock a" "user_sessions w"]
  by (simp add: destroyAllSessionsForUser_def update_user_sessions_inactive_def)

text \<open>
  Claim C9. \<open>destroySession\<close> and \<open>destroyAllSessionsForUser\<close> return a state for every
  argument. A second call leaves every session it addresses inactive and changes no
  active flag (the state after two calls is the state after the second call alone);
  revoking sessions that are already inactive changes no flag, and revoking a session or
  a user that has no record changes nothing.
\<close>

theorem revoke_idempotent:
  "(\<forall>s \<in> set (user_sessions (destroySession a2 sid (destroySession a1 sid w))).
       session_id s = sid \<longrightarrow> \<not> s_is_active s)
   \<and> destroySession a2 sid (destroySession a1 sid w) = destroySession a2 sid w
   \<and> map s_is_active (user_sessions (destroySession a2 sid (destroySession a1 sid w)))
       = map s_is_active (user_sessions (destroySession a1 sid w))
   \<and> ((\<forall>s \<in> set (user_sessions w). session_id s = sid \<longrightarrow> \<not> s_is_active s)
        \<longrightarrow> map s_is_active (user_sessions (destroySession a1 sid w)) = map s_is_active (user_sessions w))
   \<and> ((\<forall>s \<in> set (user_sessions w). session_id s \<noteq> sid) \<longrightarrow> destroySession a1 sid w = w)
   \<and> (\<forall>s \<in> set (user_sessions (destroyAllSessionsForUser a2 uid (destroyAllSessionsForUser a1 uid w))).
       s_user_id s = uid \<longrightarrow> \<not> s_is_active s)
   \<and> destroyAllSessionsForUser a2 uid (destroyAllSessionsForUser a1 uid w)
       = destroyAllSessionsForUser a2 uid w
   \<and> map s_is_active (user_sessions (destroyAllSessionsForUser a2 uid (destroyAllSessionsForUser a1 uid w)))
       = map s_is_active (user_sessions (destroyAllSessionsForUser a1 uid w))
   \<and> ((\<forall>s \<in> set (user_sessions w). s_user_id s \<noteq> uid) \<longrightarrow> destroyAllSessionsForUser a1 uid w = w)"
proof (intro conjI impI ballI)
  show "destroySession a2 sid (destroySession a1 sid w) = destroySession a2 sid w"
    by (rule destroySession_twice)
  show "destroyAllSessionsForUser a2 uid (destroyAllSessionsForUser a1 uid w)
          = destroyAllSessionsForUser a2 uid w"
    by (rule destroyAll_twice)
  show "map s_is_active (user_sessions (destroySession a2 sid (destroySession a1 sid w)))
          = map s_is_active (user_sessions (destroySession a1 sid w))"
    using deactivate_inactive_flag [of "user_sessions (destroySession a1 sid w)"
            "\<lambda>s. session_id s = sid" "db_clock a2"] destroySession_flags [of _ a1 sid w]
    by (simp add: destroySession_def update_session_inactive_def)
  show "map s_is_active (user_sessions (destroyAllSessionsForUser a2 uid (destroyAllSessionsForUser a1 uid w)))
          = map s_is_active (user_sessions (destroyAllSessionsForUser a1 uid w))"
    using deactivate_inactive_flag [of "user_sessions (destroyAllSessionsForUser a1 uid w)"
            "\<lambda>s. s_user_id s = uid" "db_clock a2"] destroyAll_flags [of _ a1 uid w]
    by (simp add: destroyAllSessionsForUser_def update_user_sessions_inactive_def)
next
  fix s assume "s \<in> set (user_sessions (destroySession a2 sid (destroySession a1 sid w)))"
    and "session_id s = sid"
  then show "\<not> s_is_active s" by (rule destroySession_flags)
next
  fix s assume "s \<in> set (user_sessions (destroyAllSessionsForUser a2 uid (destroyAllSessionsForUser a1 uid w)))"
    and "s_user_id s = uid"
  then show "\<not> s_is_active s" by (rule destroyAll_flags)
next
  assume "\<forall>s \<in> set (user_sessions w). session_id s = sid \<longrightarrow> \<not> s_is_active s"
  then show "map s_is_active (user_sessions (destroySession a1 sid w)) = map s_is_active (user_sessions w)"
    by (simp add: destroySession_def update_session_inactive_def deactivate_inactive_flag)
next
  assume "\<forall>s \<in> set (user_sessions w). session_id s \<noteq> sid"
  then show "destroySession a1 sid w = w"
    by (simp add: destroySession_def update_session_inactive_def deactivate_none)
next
  assume "\<forall>s \<in> set (user_sessions w). s_user_id s \<noteq> uid"
  then show "destroyAllSessionsForUser a1 uid w = w"
    by (simp add: destroyAllSessionsForUser_def update_user_sessions_inactive_def deactivate_none)
qed

theorem revoke_idempotent_witness:
  "user_sessions (destroySession (demo_ambient 900) ''s1'' (destroySession (demo_ambient 500) ''s1'' two_sessions))
     = [(demo_session ''s1'' ''u1'' 28800000 False)\<lparr> last_activity_at := 900 \<rparr>,
        demo_session ''s2'' ''u1'' 28800000 True]
   \<and> destroySession (demo_ambient 500) ''s9'' two_sessions = two_sessions
   \<and> map s_is_active (user_sessions (destroyAllSessionsForUser (demo_ambient 900) ''u1''
        (destroyAllSessionsForUser (demo_ambient 500) ''u1'' two_sessions))) = [False, False]"
proof -
  have a: "user_sessions (destroySession (demo_ambient 900) ''s1'' two_sessions)
     = [(demo_session ''s1'' ''u1'' 28800000 False)\<lparr> last_activity_at := 900 \<rparr>,
        demo_session ''s2'' ''u1'' 28800000 True]"
    by (simp add: destroySession_def update_session_inactive_def two_sessions_def demo_session_def
          deactivate_def demo_ambient_def)
  have b: "\<forall>s \<in> set (user_sessions two_sessions). session_id s \<noteq> ''s9''"
    by (simp add: two_sessions_def demo_session_def)
  have c: "map s_is_active (user_sessions (destroyAllSessionsForUser (demo_ambient 900) ''u1'' two_sessions))
     = [False, False]"
    by (simp add: destroyAllSessionsForUser_def update_user_sessions_inactive_def two_sessions_def
          demo_session_def deactivate_def)
  from revoke_idempotent [of "demo_ambient 900" "''s1''" "demo_ambient 500" two_sessions "''u1''"]
       revoke_idempotent [of "demo_ambient 500" "''s9''" "demo_ambient 500" two_sessions "''u1''"]
       a b c
  show ?thesis by simp
qed

text \<open>
  Claim C10. The row that \<open>createSessionForUser\<close> stores and returns has the same value in
  \<open>created_at\<close> as in \<open>expires_at\<close>: both are the store's reading of the expiry text, which is
  the instant of the call plus the configured hours, formatted in the configured zone.
  The instant of the call itself is stored in \<open>last_activity_at\<close> only.
\<close>

theorem session_created_at_is_expiry:
  "\<exists>r. dbRow (fst (createSessionForUser cfg col amb userId token ip ua w)) = Some r
       \<and> user_sessions (snd (createSessionForUser cfg col amb userId token ip ua w))
           = user_sessions w @ [r]
       \<and> s_created_at r = s_expires_at r
       \<and> s_expires_at r = timestamp_in col (expiresAt (fst (createSessionForUser cfg col amb userId token ip ua w)))
       \<and> expiresAt (fst (createSessionForUser cfg col amb userId token ip ua w))
           = moment_format col (if timezone cfg = [] then ''Asia/Kolkata'' else timezone cfg)
               ''YYYY-MM-DD HH:mm:ss'' (clock amb + session_ttlHours cfg * 3600000)
       \<and> last_activity_at r = clock amb"
  by (simp add: createSessionForUser_def insert_session_def Let_def)

section \<open>Issuance and delivery failures\<close>

lemma createOtpForUser_other_channel:
  "filter (\<lambda>d. d_channel d = EMAIL) (outbox (snd (createOtpForUser cfg col amb usr em ty w)))
     = (if present (email usr)
        then filter (\<lambda>d. d_channel d = EMAIL)
               (outbox (snd (sendOtpViaEmail cfg col (str (email usr)) (generateOtp (random_otp amb)) ty w)))
        else filter (\<lambda>d. d_channel d = EMAIL) (outbox w))"
proof -
  let ?code = "generateOtp (random_otp amb)"
  let ?mobile = "or_else em (phone usr)"
  let ?w1 = "snd (insert_otp (db_clock amb) (user_id usr) ?mobile ?code ty
                (clock amb + (if otp_ttlMinutes cfg = 0 then 30 else otp_ttlMinutes cfg) * 60000)
                (email usr) ''127.0.0.1'' w)"
  let ?w2 = "if present ?mobile
             then swallow (''Failed to send OTP SMS to '' @ str ?mobile @ '':'')
                    (sendOtpViaSMS cfg col (str ?mobile) ?code ty ?w1)
             else ?w1"
  let ?E = "\<lambda>d. d_channel d = EMAIL"
  have w2: "filter ?E (outbox ?w2) = filter ?E (outbox w)"
    by (simp add: emits_other_channel [OF emits_sendOtpViaSMS])
  have "filter ?E (outbox (snd (sendOtpViaEmail cfg col (str (email usr)) ?code ty ?w2)))
          = filter ?E (outbox (snd (sendOtpViaEmail cfg col (str (email usr)) ?code ty w)))"
    by (rule emits_same_channel [OF emits_sendOtpViaEmail w2])
  with w2 show ?thesis
    unfolding createOtpForUser_snd Let_def by simp
qed

lemma createOtpForUser_sms_channel:
  "filter (\<lambda>d. d_channel d = SMS) (outbox (snd (createOtpForUser cfg col amb usr em ty w)))
     = (if present (or_else em (phone usr))
        then filter (\<lambda>d. d_channel d = SMS)
               (outbox (snd (sendOtpViaSMS cfg col (str (or_else em (phone usr)))
                               (generateOtp (random_otp amb)) ty w)))
        else filter (\<lambda>d. d_channel d = SMS) (outbox w))"
proof -
  let ?code = "generateOtp (random_otp amb)"
  let ?mobile = "or_else em (phone usr)"
  let ?w1 = "snd (insert_otp (db_clock amb) (user_id usr) ?mobile ?code ty
                (clock amb + (if otp_ttlMinutes cfg = 0 then 30 else otp_ttlMinutes cfg) * 60000)
                (email usr) ''127.0.0.1'' w)"
  let ?S = "\<lambda>d. d_channel d = SMS"
  have "filter ?S (outbox ?w1) = filter ?S (outbox w)"
    by simp
  then have "filter ?S (outbox (snd (sendOtpViaSMS cfg col (str ?mobile) ?code ty ?w1)))
          = filter ?S (outbox (snd (sendOtpViaSMS cfg col (str ?mobile) ?code ty w)))"
    by (rule emits_same_channel [OF emits_sendOtpViaSMS])
  then show ?thesis
    unfolding createOtpForUser_snd Let_def
    by (simp add: emits_other_channel [OF emits_sendOtpViaEmail])
qed

text \<open>
  Claim C6. Whatever the delivery collaborators do (for every \<open>col\<close>, so also when the
  SMS request, the e-mail request or both fail), \<open>createOtpForUser\<close> returns the generated
  code and its expiry, and the record it inserted is the last row of the table. What is
  handed to the e-mail provider is what \<open>sendOtpViaEmail\<close> hands over by itself, whatever
  became of the SMS, and the same with the channels exchanged.
\<close>

theorem issuance_survives_delivery_failure:
  "otpCode (fst (createOtpForUser cfg col amb usr em ty w)) = generateOtp (random_otp amb)
   \<and> expiresUTC (fst (createOtpForUser cfg col amb usr em ty w))
       = clock amb + (if otp_ttlMinutes cfg = 0 then 30 else otp_ttlMinutes cfg) * 60000
   \<and> (\<exists>r. issued_row (fst (createOtpForUser cfg col amb usr em ty w)) = Some r
          \<and> users_otps (snd (createOtpForUser cfg col amb usr em ty w)) = users_otps w @ [r]
          \<and> otp_code r = otpCode (fst (createOtpForUser cfg col amb usr em ty w))
          \<and> otp_expires_at r = expiresUTC (fst (createOtpForUser cfg col amb usr em ty w))
          \<and> \<not> is_used r)
   \<and> (present (email usr) \<longrightarrow>
         filter (\<lambda>d. d_channel d = EMAIL) (outbox (snd (createOtpForUser cfg col amb usr em ty w)))
           = filter (\<lambda>d. d_channel d = EMAIL)
               (outbox (snd (sendOtpViaEmail cfg col (str (email usr)) (generateOtp (random_otp amb)) ty w))))
   \<and> (present (or_else em (phone usr)) \<longrightarrow>
         filter (\<lambda>d. d_channel d = SMS) (outbox (snd (createOtpForUser cfg col amb usr em ty w)))
           = filter (\<lambda>d. d_channel d = SMS)
               (outbox (snd (sendOtpViaSMS cfg col (str (or_else em (phone usr)))
                               (generateOtp (random_otp amb)) ty w))))"
  by (simp add: createOtpForUser_fst createOtpForUser_tables createOtpForUser_other_channel
        createOtpForUser_sms_channel)

lemma failing_sms:
  "sendOtpViaSMS failing_config failing_collab ''9876543210'' c ty empty_world
     = (Inl ''ECONNREFUSED'',
        empty_world
          \<lparr> console := [''SMS sending error: ECONNREFUSED''],
            outbox := [\<lparr> d_channel = SMS, d_provider = ''twilio'', d_to = ''9876543210'',
                         d_text = getOtpMessage failing_config c ty \<rparr>] \<rparr>)"
  by (simp add: sendOtpViaSMS_def sendSMS_def sendViaTwilio_def rethrow_def print_def hand_over_def
        failing_config_def failing_collab_def demo_collab_def demo_config_def empty_world_def
        is_digit_def toLowerCase_def lower_char_def Let_def)

lemma failing_email:
  "sendOtpViaEmail failing_config failing_collab ''a@x.com'' c ty empty_world
     = (Inl ''ECONNREFUSED'',
        empty_world
          \<lparr> console := [''Email sending error: ECONNREFUSED''],
            outbox := [\<lparr> d_channel = EMAIL, d_provider = ''sendgrid'', d_to = ''a@x.com'',
                         d_text = getOtpEmailBody failing_config c ty \<rparr>] \<rparr>)"
  by (simp add: sendOtpViaEmail_def sendEmail_def sendViaSendGrid_def rethrow_def print_def
        hand_over_def failing_config_def failing_collab_def demo_collab_def demo_config_def
        empty_world_def toLowerCase_def lower_char_def Let_def)

theorem issuance_survives_delivery_failure_witness:
  "present (email demo_user) \<and> present (or_else None (phone demo_user))
   \<and> fst (sendOtpViaSMS failing_config failing_collab ''9876543210'' ''4821'' ''LOGIN'' empty_world)
       = Inl ''ECONNREFUSED''
   \<and> fst (sendOtpViaEmail failing_config failing_collab ''a@x.com'' ''4821'' ''LOGIN'' empty_world)
       = Inl ''ECONNREFUSED''
   \<and> otpCode (fst (createOtpForUser failing_config failing_collab (demo_ambient 0) demo_user None
                      ''LOGIN'' empty_world)) = ''4821''
   \<and> expiresUTC (fst (createOtpForUser failing_config failing_collab (demo_ambient 0) demo_user None
                         ''LOGIN'' empty_world)) = 600000
   \<and> map otp_code (users_otps (snd (createOtpForUser failing_config failing_collab (demo_ambient 0)
                                       demo_user None ''LOGIN'' empty_world))) = [''4821'']
   \<and> map d_to (filter (\<lambda>d. d_channel d = EMAIL)
                  (outbox (snd (createOtpForUser failing_config failing_collab (demo_ambient 0)
                                  demo_user None ''LOGIN'' empty_world)))) = [''a@x.com'']
   \<and> map d_to (filter (\<lambda>d. d_channel d = SMS)
                  (outbox (snd (createOtpForUser failing_config failing_collab (demo_ambient 0)
                                  demo_user None ''LOGIN'' empty_world)))) = [''9876543210'']"
proof -
  have p: "present (email demo_user)" "present (or_else None (phone demo_user))"
    "str (email demo_user) = ''a@x.com''" "str (or_else None (phone demo_user)) = ''9876543210''"
    by (simp_all add: demo_user_def or_else_def)
  have g: "generateOtp (random_otp (demo_ambient 0)) = ''4821''"
    by (simp add: demo_ambient_def generateOtp_def string_of_nat.simps)
  have t: "clock (demo_ambient 0)
             + (if otp_ttlMinutes failing_config = 0 then 30 else otp_ttlMinutes failing_config) * 60000
           = 600000"
    by (simp add: demo_ambient_def failing_config_def demo_config_def)
  have e: "users_otps empty_world = []" "outbox empty_world = []"
    by (simp_all add: empty_world_def)
  from issuance_survives_delivery_failure
         [of failing_config failing_collab "demo_ambient 0" demo_user None "''LOGIN''" empty_world]
  show ?thesis
    unfolding g t p failing_sms failing_email e
    by (auto simp: p)
qed

section \<open>The login steps\<close>

lemma caught_frame [simp]:
  "users_otps (snd (caught cfg l e w)) = users_otps w"
  "user_sessions (snd (caught cfg l e w)) = user_sessions w"
  "outbox (snd (caught cfg l e w)) = outbox w"
  by (simp_all add: caught_def)

lemma verifyPassword_frame [simp]:
  "users_otps (snd (verifyPassword col p h w)) = users_otps w"
  "user_sessions (snd (verifyPassword col p h w)) = user_sessions w"
  "outbox (snd (verifyPassword col p h w)) = outbox w"
  by (simp_all add: verifyPassword_def split: jsval.splits sum.splits)

lemma unauthorized:
  "errorResponse cfg 401 ''Invalid user credentials'' None
     = \<lparr> status = 401, message = ''Invalid user credentials'', error = None, payload = [] \<rparr>"
  by (simp add: errorResponse_def)

lemma validateCredentials_inactive:
  assumes "findUserByEmailAndRole col (b_email (req_body req)) (b_role (req_body req)) = Inr usr"
    and "\<not> isUserActive usr"
  shows "validateCredentials cfg col amb req w
           = (errorResponse cfg 401 ''Invalid user credentials'' None, w)"
  using assms by (simp add: validateCredentials_def Let_def)

lemma validateCredentials_bad_password:
  assumes "findUserByEmailAndRole col (b_email (req_body req)) (b_role (req_body req)) = Inr (Some u)"
    and "fst (verifyPassword col (b_password (req_body req)) (password_hash u) w) = Inr False"
  shows "validateCredentials cfg col amb req w
           = (errorResponse cfg 401 ''Invalid user credentials'' None,
              if isUserActive (Some u)
              then snd (verifyPassword col (b_password (req_body req)) (password_hash u) w) else w)"
proof -
  obtain w1 where
    vp: "verifyPassword col (b_password (req_body req)) (password_hash u) w = (Inr False, w1)"
    using assms(2)
    by (cases "verifyPassword col (b_password (req_body req)) (password_hash u) w") simp
  with assms(1) show ?thesis
    by (simp add: validateCredentials_def Let_def)
qed

text \<open>
  When \<open>verifyPassword\<close> answers false: bcrypt rejects the password or fails, or the stored
  value has no bcrypt prefix and the password is not that very value.
\<close>

lemma verifyPassword_false_iff:
  "fst (verifyPassword col p h w) = Inr False \<longleftrightarrow>
     (case h of
        JStr s \<Rightarrow>
          if s \<noteq> [] \<and> (take 4 s = ''$2a$'' \<or> take 4 s = ''$2b$'' \<or> take 4 s = ''$2y$'')
          then bcrypt_compare col p s \<noteq> Inr True
          else p \<noteq> h
      | _ \<Rightarrow> \<not> truthy h \<and> p \<noteq> h)"
  by (cases h; cases "bcrypt_compare col p (case h of JStr s \<Rightarrow> s | _ \<Rightarrow> [])")
     (auto simp: verifyPassword_def)

text \<open>
  Claim C7. When the lookup by email and role finds no identity, when the identity found
  does not pass the active check, and when \<open>verifyPassword\<close> finds that the password does
  not match the stored credential, \<open>validateCredentials\<close> gives one and the same response:
  status 401 with the message 'Invalid user credentials', no error detail and no other
  field. No code is issued and nothing is delivered.
\<close>

theorem credential_failures_indistinguishable:
  assumes "findUserByEmailAndRole col (b_email (req_body req)) (b_role (req_body req)) = Inr usr"
    and "usr = None
         \<or> (\<exists>u. usr = Some u \<and> \<not> isUserActive (Some u))
         \<or> (\<exists>u. usr = Some u
               \<and> fst (verifyPassword col (b_password (req_body req)) (password_hash u) w) = Inr False)"
  shows "fst (validateCredentials cfg col amb req w)
           = \<lparr> status = 401, message = ''Invalid user credentials'', error = None, payload = [] \<rparr>
         \<and> users_otps (snd (validateCredentials cfg col amb req w)) = users_otps w
         \<and> outbox (snd (validateCredentials cfg col amb req w)) = outbox w"
proof -
  consider (absent) "usr = None"
    | (inactive) u where "usr = Some u" "\<not> isUserActive (Some u)"
    | (password) u where "usr = Some u"
        "fst (verifyPassword col (b_password (req_body req)) (password_hash u) w) = Inr False"
    using assms(2) by blast
  then show ?thesis
  proof cases
    case absent
    then have "\<not> isUserActive usr" by simp
    from validateCredentials_inactive [OF assms(1) this] show ?thesis
      by (simp add: unauthorized)
  next
    case inactive
    then have "\<not> isUserActive usr" by simp
    from validateCredentials_inactive [OF assms(1) this] show ?thesis
      by (simp add: unauthorized)
  next
    case password
    from validateCredentials_bad_password [OF assms(1) [unfolded password(1)] password(2)]
    show ?thesis
      by (simp add: unauthorized)
  qed
qed

lemma trim_true [simp]: "trim ''true'' = ''true''"
  by (simp add: trim_def is_ws_def)

lemma demo_lookup:
  "findUserByEmailAndRole demo_collab (Some e) (Some ''USER'')
     = Inr (if e = ''a@x.com'' then Some demo_user else None)"
  by (simp add: demo_collab_def)

lemma stored_lookup:
  "findUserByEmailAndRole (stored_collab h) e r = Inr (Some (demo_user \<lparr> password_hash := h \<rparr>))"
  by (simp add: stored_collab_def)

lemma stored_bcrypt: "bcrypt_compare (stored_collab h) p s = Inr False"
  by (simp add: stored_collab_def demo_collab_def)

theorem credential_failures_indistinguishable_witness:
  "fst (validateCredentials demo_config demo_collab (demo_ambient 0)
          (demo_request (cred_body ''nobody@x.com'' ''secret'')) empty_world)
     = \<lparr> status = 401, message = ''Invalid user credentials'', error = None, payload = [] \<rparr>
   \<and> fst (validateCredentials demo_config (flagged_collab (JBool False)) (demo_ambient 0)
          (demo_request (cred_body ''a@x.com'' ''secret'')) empty_world)
     = \<lparr> status = 401, message = ''Invalid user credentials'', error = None, payload = [] \<rparr>
   \<and> fst (validateCredentials demo_config demo_collab (demo_ambient 0)
          (demo_request (cred_body ''a@x.com'' ''wrong'')) empty_world)
     = \<lparr> status = 401, message = ''Invalid user credentials'', error = None, payload = [] \<rparr>
   \<and> fst (validateCredentials demo_config (stored_collab (JStr ''$2b$10$N9qo8uLOickgx2ZMRZoMye''))
          (demo_ambient 0) (demo_request (cred_body ''a@x.com'' ''secret'')) empty_world)
     = \<lparr> status = 401, message = ''Invalid user credentials'', error = None, payload = [] \<rparr>
   \<and> fst (validateCredentials demo_config (stored_collab JNull) (demo_ambient 0)
          (demo_request ((cred_body ''a@x.com'' [])\<lparr> b_password := JUndefined \<rparr>)) empty_world)
     = \<lparr> status = 401, message = ''Invalid user credentials'', error = None, payload = [] \<rparr>
   \<and> status (fst (validateCredentials demo_config demo_collab (demo_ambient 0)
          (demo_request (cred_body ''a@x.com'' ''secret'')) empty_world)) = 200"
proof -
  have l1: "findUserByEmailAndRole demo_collab
              (b_email (req_body (demo_request (cred_body ''nobody@x.com'' ''secret''))))
              (b_role (req_body (demo_request (cred_body ''nobody@x.com'' ''secret'')))) = Inr None"
    by (simp add: demo_request_def cred_body_def demo_lookup)
  have l2: "findUserByEmailAndRole (flagged_collab (JBool False))
              (b_email (req_body (demo_request (cred_body ''a@x.com'' ''secret''))))
              (b_role (req_body (demo_request (cred_body ''a@x.com'' ''secret''))))
            = Inr (Some (demo_user \<lparr> is_active := JBool False \<rparr>))"
    by (simp add: flagged_collab_def)
  have c2: "\<not> isUserActive (Some (demo_user \<lparr> is_active := JBool False \<rparr>))"
    by (simp add: trim_def is_ws_def)
  have l3: "findUserByEmailAndRole demo_collab
              (b_email (req_body (demo_request (cred_body ''a@x.com'' ''wrong''))))
              (b_role (req_body (demo_request (cred_body ''a@x.com'' ''wrong'')))) = Inr (Some demo_user)"
    by (simp add: demo_request_def cred_body_def demo_lookup)
  have c3: "fst (verifyPassword demo_collab
                  (b_password (req_body (demo_request (cred_body ''a@x.com'' ''wrong''))))
                  (password_hash demo_user) empty_world) = Inr False"
    by (simp add: verifyPassword_false_iff demo_request_def cred_body_def demo_user_def)
  have l4: "findUserByEmailAndRole (stored_collab (JStr ''$2b$10$N9qo8uLOickgx2ZMRZoMye''))
              (b_email (req_body (demo_request (cred_body ''a@x.com'' ''secret''))))
              (b_role (req_body (demo_request (cred_body ''a@x.com'' ''secret''))))
            = Inr (Some (demo_user \<lparr> password_hash := JStr ''$2b$10$N9qo8uLOickgx2ZMRZoMye'' \<rparr>))"
    by (rule stored_lookup)
  have l5: "findUserByEmailAndRole (stored_collab JNull)
              (b_email (req_body (demo_request ((cred_body ''a@x.com'' [])\<lparr> b_password := JUndefined \<rparr>))))
              (b_role (req_body (demo_request ((cred_body ''a@x.com'' [])\<lparr> b_password := JUndefined \<rparr>))))
            = Inr (Some (demo_user \<lparr> password_hash := JNull \<rparr>))"
    by (rule stored_lookup)
  have c4: "fst (verifyPassword (stored_collab (JStr ''$2b$10$N9qo8uLOickgx2ZMRZoMye''))
                  (b_password (req_body (demo_request (cred_body ''a@x.com'' ''secret''))))
                  (password_hash (demo_user \<lparr> password_hash := JStr ''$2b$10$N9qo8uLOickgx2ZMRZoMye'' \<rparr>))
                  empty_world) = Inr False"
    by (simp add: verifyPassword_false_iff stored_bcrypt)
  have c5: "fst (verifyPassword (stored_collab JNull)
                  (b_password (req_body (demo_request ((cred_body ''a@x.com'' [])\<lparr> b_password := JUndefined \<rparr>))))
                  (password_hash (demo_user \<lparr> password_hash := JNull \<rparr>)) empty_world) = Inr False"
    by (simp add: verifyPassword_false_iff demo_request_def)
  have ok: "status (fst (validateCredentials demo_config demo_collab (demo_ambient 0)
          (demo_request (cred_body ''a@x.com'' ''secret'')) empty_world)) = 200"
    by (simp add: validateCredentials_def demo_request_def cred_body_def demo_lookup Let_def
          verifyPassword_def successResponse_def split_beta demo_user_def)
  from credential_failures_indistinguishable [OF l1, of empty_world demo_config "demo_ambient 0"]
       credential_failures_indistinguishable [OF l2, of empty_world demo_config "demo_ambient 0"] c2
       credential_failures_indistinguishable [OF l3, of empty_world demo_config "demo_ambient 0"] c3
       credential_failures_indistinguishable [OF l4, of empty_world demo_config "demo_ambient 0"] c4
       credential_failures_indistinguishable [OF l5, of empty_world demo_config "demo_ambient 0"] c5
       ok
  show ?thesis by simp
qed

text \<open>
  A \<open>null\<close> password is a match for an identity whose stored credential is \<open>null\<close>: the
  comparison is \<open>null === null\<close>, and the step answers 200 and issues a code.
\<close>

lemma null_password_matches_null_credential:
  "fst (verifyPassword col JNull JNull w) = Inr True
   \<and> status (fst (validateCredentials demo_config (stored_collab JNull) (demo_ambient 0)
                     (demo_request ((cred_body ''a@x.com'' [])\<lparr> b_password := JNull \<rparr>))
                     empty_world)) = 200
   \<and> length (users_otps (snd (validateCredentials demo_config (stored_collab JNull) (demo_ambient 0)
                     (demo_request ((cred_body ''a@x.com'' [])\<lparr> b_password := JNull \<rparr>))
                     empty_world))) = 1"
proof -
  have a: "trim (String_js (is_active demo_user)) = ''true''"
    by (simp add: demo_user_def)
  show ?thesis
    by (simp add: validateCredentials_def Let_def stored_lookup a verifyPassword_def demo_request_def
          successResponse_def createOtpForUser_tables empty_world_def split_beta)
qed

section \<open>The active check\<close>

lemma string_of_nat_digits: "set (string_of_nat n) \<subseteq> set ''0123456789''"
proof (induction n rule: string_of_nat.induct)
  case (1 n)
  have d: "''0123456789'' ! k \<in> set ''0123456789''" if "k < 10" for k
    using that by (intro nth_mem) simp
  show ?case
  proof (cases "n < 10")
    case True
    with d [of n] show ?thesis
      by (subst string_of_nat.simps) simp
  next
    case False
    with "1.IH" d [of "n mod 10"] show ?thesis
      by (subst string_of_nat.simps) simp
  qed
qed

lemma set_trim: "set (trim s) \<subseteq> set s"
proof (rule subsetI)
  fix x
  assume "x \<in> set (trim s)"
  then have "x \<in> set (dropWhile is_ws (rev (dropWhile is_ws s)))"
    by (simp add: trim_def)
  then have "x \<in> set (rev (dropWhile is_ws s))"
    by (rule set_dropWhileD)
  then have "x \<in> set (dropWhile is_ws s)"
    by simp
  then show "x \<in> set s"
    by (rule set_dropWhileD)
qed

lemma number_is_not_true: "trim (string_of_int n) \<noteq> ''true''"
proof
  assume t: "trim (string_of_int n) = ''true''"
  have "CHR ''t'' \<in> set (trim (string_of_int n))"
    by (simp add: t)
  then have "CHR ''t'' \<in> set (string_of_int n)"
    using set_trim by blast
  then have "CHR ''t'' \<in> set (string_of_nat (nat n)) \<or> CHR ''t'' \<in> set (string_of_nat (nat (- n)))"
    by (cases "n < 0") (simp_all add: string_of_int_def)
  then have "CHR ''t'' \<in> set ''0123456789''"
    using string_of_nat_digits by blast
  then show False by simp
qed

lemma trims_to_true:
  "trim (String_js v) = ''true'' \<longleftrightarrow> v = JBool True \<or> (\<exists>s. v = JStr s \<and> trim s = ''true'')"
proof (cases v)
  case JUndefined
  then show ?thesis by (simp add: trim_def is_ws_def)
next
  case JNull
  then show ?thesis by (simp add: trim_def is_ws_def)
next
  case (JBool b)
  then show ?thesis by (cases b) (simp_all add: trim_def is_ws_def)
next
  case (JNum n)
  then show ?thesis by (simp add: number_is_not_true)
next
  case (JStr s)
  then show ?thesis by simp
qed

lemma trim_Nil [simp]: "trim [] = []"
  by (simp add: trim_def)

lemma isUserActive_iff:
  "isUserActive usr \<longleftrightarrow>
     (\<exists>u. usr = Some u \<and> (is_active u = JBool True \<or> (\<exists>s. is_active u = JStr s \<and> trim s = ''true'')))"
  by (cases usr) (simp_all add: trims_to_true)

lemma isUserActive_truthy: "isUserActive usr \<Longrightarrow> \<exists>u. usr = Some u \<and> truthy (is_active u)"
  by (auto simp: isUserActive_iff)

lemma sendOtp_inactive:
  assumes "findUserByMobileAndRole col (b_mobile (req_body req)) (b_role (req_body req)) = Inr usr"
    and "\<not> isUserActive usr"
  shows "sendOtp cfg col amb req w = (errorResponse cfg 401 ''Invalid user credentials'' None, w)"
  using assms by (simp add: sendOtp_def Let_def)

lemma sendOtp_active:
  assumes "findUserByMobileAndRole col (b_mobile (req_body req)) (b_role (req_body req)) = Inr usr"
    and "isUserActive usr"
  shows "status (fst (sendOtp cfg col amb req w)) = 200"
proof -
  from assms(2) obtain u where u: "usr = Some u" by (cases usr) simp_all
  with assms show ?thesis
    by (simp add: sendOtp_def Let_def successResponse_def split: prod.splits)
qed

lemma finalLogin_inactive:
  assumes "(if present (b_email (req_body req))
            then findUserByEmailAndRole col (b_email (req_body req)) (b_role (req_body req))
            else if present (b_mobile (req_body req))
            then findUserByMobileAndRole col (b_mobile (req_body req)) (b_role (req_body req))
            else Inr None) = Inr usr"
    and "\<not> isUserActive usr"
  shows "finalLogin cfg col amb req w = (errorResponse cfg 401 ''Invalid user credentials'' None, w)"
  using assms by (simp add: finalLogin_def Let_def)

text \<open>
  Claim C8, as amended. The active check passes exactly when \<open>String(is_active).trim()\<close> is
  the text 'true', that is, when the flag is the boolean \<open>true\<close> or a string that trims to
  'true'. Every flag that passes is truthy, and a boolean flag passes exactly when it is
  truthy. When the check fails, each of \<open>validateCredentials\<close>, \<open>sendOtp\<close> and \<open>finalLogin\<close>
  answers 401 'Invalid user credentials'; when it passes, \<open>sendOtp\<close> answers 200.
\<close>

theorem active_check:
  "(isUserActive usr \<longleftrightarrow>
      (\<exists>u. usr = Some u \<and> (is_active u = JBool True \<or> (\<exists>s. is_active u = JStr s \<and> trim s = ''true''))))
   \<and> (isUserActive usr \<longrightarrow> (\<exists>u. usr = Some u \<and> truthy (is_active u)))
   \<and> (\<forall>u b. usr = Some u \<and> is_active u = JBool b \<longrightarrow> (isUserActive usr \<longleftrightarrow> truthy (is_active u)))
   \<and> (\<not> isUserActive usr
        \<and> findUserByEmailAndRole col (b_email (req_body req)) (b_role (req_body req)) = Inr usr
      \<longrightarrow> fst (validateCredentials cfg col amb req w)
            = \<lparr> status = 401, message = ''Invalid user credentials'', error = None, payload = [] \<rparr>)
   \<and> (\<not> isUserActive usr
        \<and> findUserByMobileAndRole col (b_mobile (req_body req)) (b_role (req_body req)) = Inr usr
      \<longrightarrow> fst (sendOtp cfg col amb req w)
            = \<lparr> status = 401, message = ''Invalid user credentials'', error = None, payload = [] \<rparr>)
   \<and> (\<not> isUserActive usr
        \<and> (if present (b_email (req_body req))
            then findUserByEmailAndRole col (b_email (req_body req)) (b_role (req_body req))
            else if present (b_mobile (req_body req))
            then findUserByMobileAndRole col (b_mobile (req_body req)) (b_role (req_body req))
            else Inr None) = Inr usr
      \<longrightarrow> fst (finalLogin cfg col amb req w)
            = \<lparr> status = 401, message = ''Invalid user credentials'', error = None, payload = [] \<rparr>)
   \<and> (isUserActive usr
        \<and> findUserByMobileAndRole col (b_mobile (req_body req)) (b_role (req_body req)) = Inr usr
      \<longrightarrow> status (fst (sendOtp cfg col amb req w)) = 200)"
proof (intro conjI impI allI)
  show "isUserActive usr \<longleftrightarrow>
      (\<exists>u. usr = Some u \<and> (is_active u = JBool True \<or> (\<exists>s. is_active u = JStr s \<and> trim s = ''true'')))"
    by (rule isUserActive_iff)
  show "\<exists>u. usr = Some u \<and> truthy (is_active u)" if "isUserActive usr"
    using that by (rule isUserActive_truthy)
  show "isUserActive usr \<longleftrightarrow> truthy (is_active u)" if "usr = Some u \<and> is_active u = JBool b" for u b
    using that by (cases b) (simp_all add: trim_def is_ws_def)
  show "fst (validateCredentials cfg col amb req w)
          = \<lparr> status = 401, message = ''Invalid user credentials'', error = None, payload = [] \<rparr>"
    if "\<not> isUserActive usr
        \<and> findUserByEmailAndRole col (b_email (req_body req)) (b_role (req_body req)) = Inr usr"
    using that validateCredentials_inactive [of col req usr cfg amb w] by (simp add: unauthorized)
  show "fst (sendOtp cfg col amb req w)
          = \<lparr> status = 401, message = ''Invalid user credentials'', error = None, payload = [] \<rparr>"
    if "\<not> isUserActive usr
        \<and> findUserByMobileAndRole col (b_mobile (req_body req)) (b_role (req_body req)) = Inr usr"
    using that sendOtp_inactive [of col req usr cfg amb w] by (simp add: unauthorized)
  show "fst (finalLogin cfg col amb req w)
          = \<lparr> status = 401, message = ''Invalid user credentials'', error = None, payload = [] \<rparr>"
    if "\<not> isUserActive usr
        \<and> (if present (b_email (req_body req))
            then findUserByEmailAndRole col (b_email (req_body req)) (b_role (req_body req))
            else if present (b_mobile (req_body req))
            then findUserByMobileAndRole col (b_mobile (req_body req)) (b_role (req_body req))
            else Inr None) = Inr usr"
    using that finalLogin_inactive [of req col usr cfg amb w] by (simp add: unauthorized)
  show "status (fst (sendOtp cfg col amb req w)) = 200"
    if "isUserActive usr
        \<and> findUserByMobileAndRole col (b_mobile (req_body req)) (b_role (req_body req)) = Inr usr"
    using that sendOtp_active [of col req usr cfg amb w] by simp
qed

lemma flagged_lookup:
  "findUserByMobileAndRole (flagged_collab flag) m r = Inr (Some (demo_user \<lparr> is_active := flag \<rparr>))"
  "findUserByEmailAndRole (flagged_collab flag) e r = Inr (Some (demo_user \<lparr> is_active := flag \<rparr>))"
  by (simp_all add: flagged_collab_def)

text \<open>
  The claim as first stated fails for a truthy flag in another encoding: the number 1 and
  the string '1' are truthy, and an identity that carries either is turned away.
\<close>

theorem active_check_counterexample:
  "truthy (JNum 1) \<and> truthy (JStr ''1'')
   \<and> \<not> isUserActive (Some (demo_user \<lparr> is_active := JNum 1 \<rparr>))
   \<and> \<not> isUserActive (Some (demo_user \<lparr> is_active := JStr ''1'' \<rparr>))
   \<and> fst (sendOtp demo_config (flagged_collab (JNum 1)) (demo_ambient 0) (demo_request mobile_body)
            empty_world)
       = \<lparr> status = 401, message = ''Invalid user credentials'', error = None, payload = [] \<rparr>"
proof -
  have a: "\<not> isUserActive (Some (demo_user \<lparr> is_active := JNum 1 \<rparr>))"
    by (simp add: isUserActive_iff)
  have b: "\<not> isUserActive (Some (demo_user \<lparr> is_active := JStr ''1'' \<rparr>))"
    by (simp add: trim_def is_ws_def)
  from sendOtp_inactive [OF flagged_lookup(1) a] a b show ?thesis
    by (simp add: unauthorized)
qed

theorem active_check_witness:
  "isUserActive (Some (demo_user \<lparr> is_active := JStr '' true '' \<rparr>))
   \<and> status (fst (sendOtp demo_config (flagged_collab (JStr '' true '')) (demo_ambient 0)
                     (demo_request mobile_body) empty_world)) = 200
   \<and> \<not> isUserActive (Some (demo_user \<lparr> is_active := JBool False \<rparr>))
   \<and> fst (validateCredentials demo_config (flagged_collab (JBool False)) (demo_ambient 0)
            (demo_request (cred_body ''a@x.com'' ''secret'')) empty_world)
       = \<lparr> status = 401, message = ''Invalid user credentials'', error = None, payload = [] \<rparr>
   \<and> fst (sendOtp demo_config (flagged_collab (JBool False)) (demo_ambient 0)
            (demo_request mobile_body) empty_world)
       = \<lparr> status = 401, message = ''Invalid user credentials'', error = None, payload = [] \<rparr>
   \<and> fst (finalLogin demo_config (flagged_collab (JBool False)) (demo_ambient 0)
            (demo_request (final_body (JStr ''4821''))) empty_world)
       = \<lparr> status = 401, message = ''Invalid user credentials'', error = None, payload = [] \<rparr>"
proof -
  have a: "isUserActive (Some (demo_user \<lparr> is_active := JStr '' true '' \<rparr>))"
    by (simp add: trim_def is_ws_def)
  have b: "\<not> isUserActive (Some (demo_user \<lparr> is_active := JBool False \<rparr>))"
    by (simp add: trim_def is_ws_def)
  have f: "(if present (b_email (req_body (demo_request (final_body (JStr ''4821'')))))
            then findUserByEmailAndRole (flagged_collab (JBool False))
                   (b_email (req_body (demo_request (final_body (JStr ''4821'')))))
                   (b_role (req_body (demo_request (final_body (JStr ''4821'')))))
            else if present (b_mobile (req_body (demo_request (final_body (JStr ''4821'')))))
            then findUserByMobileAndRole (flagged_collab (JBool False))
                   (b_mobile (req_body (demo_request (final_body (JStr ''4821'')))))
                   (b_role (req_body (demo_request (final_body (JStr ''4821'')))))
            else Inr None) = Inr (Some (demo_user \<lparr> is_active := JBool False \<rparr>))"
    by (simp add: flagged_lookup demo_request_def final_body_def)
  from active_check [of "Some (demo_user \<lparr> is_active := JStr '' true '' \<rparr>)"
         "flagged_collab (JStr '' true '')" "demo_request mobile_body" demo_config "demo_ambient 0"
         empty_world]
       active_check [of "Some (demo_user \<lparr> is_active := JBool False \<rparr>)"
         "flagged_collab (JBool False)" "demo_request (cred_body ''a@x.com'' ''secret'')" demo_config
         "demo_ambient 0" empty_world]
       active_check [of "Some (demo_user \<lparr> is_active := JBool False \<rparr>)"
         "flagged_collab (JBool False)" "demo_request mobile_body" demo_config
         "demo_ambient 0" empty_world]
       active_check [of "Some (demo_user \<lparr> is_active := JBool False \<rparr>)"
         "flagged_collab (JBool False)" "demo_request (final_body (JStr ''4821''))" demo_config
         "demo_ambient 0" empty_world]
       a b f
  show ?thesis
    by (simp add: flagged_lookup)
qed

section \<open>Replaying a code\<close>

lemma createSessionForUser_frame [simp]:
  "users_otps (snd (createSessionForUser cfg col amb uid token ip ua w)) = users_otps w"
  by (simp add: createSessionForUser_def insert_session_def Let_def)

lemma createSessionForUser_row:
  "dbRow (fst (createSessionForUser cfg col amb uid token ip ua w)) \<noteq> None"
  by (simp add: createSessionForUser_def insert_session_def Let_def)

text \<open>No step of \<open>finalLogin\<close> writes to the table of codes.\<close>

lemma finalLogin_users_otps:
  "users_otps (snd (finalLogin cfg col amb req w)) = users_otps w"
  by (simp add: finalLogin_def Let_def verifyUserOtp_unfold split_beta
        split: sum.split option.split otp_result.split)

lemma finalLogin_demo:
  assumes "users_otps w = users_otps issued_world" and "t \<le> 600000"
  shows "status (fst (finalLogin demo_config demo_collab (demo_ambient t)
                        (demo_request (final_body (JStr ''4821''))) w)) = 200
         \<and> message (fst (finalLogin demo_config demo_collab (demo_ambient t)
                        (demo_request (final_body (JStr ''4821''))) w)) = ''Login successful''"
proof -
  have u: "trim (String_js (is_active demo_user)) = ''true''"
    "or_else None (phone demo_user) = Some ''9876543210''" "user_id demo_user = ''u1''"
    by (simp_all add: demo_user_def or_else_def)
  have v: "verifyUserOtp t ''u1'' ''9876543210'' (JStr ''4821'') w
             = (OtpValid \<lparr> v_otp_id = 1, v_otp_code = ''4821'', v_expires_at = 600000,
                           v_is_used = False \<rparr>, w)"
    using assms
    by (simp add: verifyUserOtp_unfold issued_world_otps otp_matches_def verify_spec_def
          otp_columns_def trim_def is_ws_def)
  have j: "signJwt demo_collab ''u1'' (email demo_user) (role demo_user) = Inr ''jwt.u1''"
    by (simp add: demo_collab_def)
  obtain si w2 where s: "createSessionForUser demo_config demo_collab (demo_ambient t) ''u1'' ''jwt.u1''
           (fst (getClientInfo (demo_request (final_body (JStr ''4821'')))))
           (snd (getClientInfo (demo_request (final_body (JStr ''4821''))))) w = (si, w2)"
    by (cases "createSessionForUser demo_config demo_collab (demo_ambient t) ''u1'' ''jwt.u1''
           (fst (getClientInfo (demo_request (final_body (JStr ''4821'')))))
           (snd (getClientInfo (demo_request (final_body (JStr ''4821''))))) w")
  with createSessionForUser_row [of demo_config demo_collab "demo_ambient t" "''u1''" "''jwt.u1''"
         "fst (getClientInfo (demo_request (final_body (JStr ''4821''))))"
         "snd (getClientInfo (demo_request (final_body (JStr ''4821''))))" w]
  obtain r where r: "dbRow si = Some r" by auto
  have b: "req_body (demo_request (final_body (JStr ''4821''))) = final_body (JStr ''4821'')"
    by (simp add: demo_request_def)
  have f: "b_email (final_body (JStr ''4821'')) = Some ''a@x.com''"
    "b_role (final_body (JStr ''4821'')) = Some ''USER''"
    "b_mobile (final_body (JStr ''4821'')) = None" "b_otp (final_body (JStr ''4821'')) = JStr ''4821''"
    by (simp_all add: final_body_def)
  have c: "clock (demo_ambient t) = t"
    by (simp add: demo_ambient_def)
  show ?thesis
    unfolding finalLogin_def Let_def b f
    by (simp add: demo_lookup u v j s r c successResponse_def)
qed

text \<open>
  Claim C1 fails on the code. The code 4821 issued at the instant 0 is verified at
  300000, \<open>finalLogin\<close> answers 200 'Login successful', and the record is still unused: the
  same code is verified again and \<open>finalLogin\<close> answers 200 a second time.
\<close>

theorem otp_replay_accepted:
  "fst (verifyUserOtp 300000 ''u1'' ''9876543210'' (JStr ''4821'') issued_world)
     = OtpValid \<lparr> v_otp_id = 1, v_otp_code = ''4821'', v_expires_at = 600000, v_is_used = False \<rparr>
   \<and> status (fst (finalLogin demo_config demo_collab (demo_ambient 300000)
                     (demo_request (final_body (JStr ''4821''))) issued_world)) = 200
   \<and> fst (verifyUserOtp 300001 ''u1'' ''9876543210'' (JStr ''4821'')
            (snd (finalLogin demo_config demo_collab (demo_ambient 300000)
                    (demo_request (final_body (JStr ''4821''))) issued_world)))
       = OtpValid \<lparr> v_otp_id = 1, v_otp_code = ''4821'', v_expires_at = 600000, v_is_used = False \<rparr>
   \<and> status (fst (finalLogin demo_config demo_collab (demo_ambient 300001)
                     (demo_request (final_body (JStr ''4821'')))
                     (snd (finalLogin demo_config demo_collab (demo_ambient 300000)
                             (demo_request (final_body (JStr ''4821''))) issued_world)))) = 200
   \<and> message (fst (finalLogin demo_config demo_collab (demo_ambient 300001)
                     (demo_request (final_body (JStr ''4821'')))
                     (snd (finalLogin demo_config demo_collab (demo_ambient 300000)
                             (demo_request (final_body (JStr ''4821''))) issued_world))))
       = ''Login successful''"
proof -
  let ?w2 = "snd (finalLogin demo_config demo_collab (demo_ambient 300000)
                    (demo_request (final_body (JStr ''4821''))) issued_world)"
  have k: "users_otps ?w2 = users_otps issued_world"
    by (rule finalLogin_users_otps)
  have v: "fst (verifyUserOtp t ''u1'' ''9876543210'' (JStr ''4821'') w)
             = OtpValid \<lparr> v_otp_id = 1, v_otp_code = ''4821'', v_expires_at = 600000,
                          v_is_used = False \<rparr>"
    if "users_otps w = users_otps issued_world" and "t \<le> 600000" for t w
    using that
    by (simp add: verifyUserOtp_unfold issued_world_otps otp_matches_def verify_spec_def
          otp_columns_def trim_def is_ws_def)
  from finalLogin_demo [of issued_world 300000] finalLogin_demo [OF k, of 300001]
       v [of issued_world 300000] v [OF k, of 300001]
  show ?thesis by simp
qed

end
